theory Spec2Isabelle
  imports Complex_Main
begin

section \<open>JavaScript values of a request body\<close>

text \<open>
  The handlers of \<^verbatim>\<open>fixed-server.js\<close> destructure \<^verbatim>\<open>req.body\<close>, the JSON document parsed
  by \<^verbatim>\<open>express.json\<close>. A field may hold any JSON value, and a field that is absent
  reads as \<^verbatim>\<open>undefined\<close>. Numbers are IEEE doubles: they are kept opaque (type \<open>'n\<close>)
  and everything the handlers do with a number (truthiness, conversion to text) is a
  field of the \<open>runtime\<close> record below.

  Strings are lists of 8-bit characters, read as the UTF-8 bytes of the text. White space
  is the ASCII white space of \<^verbatim>\<open>\s\<close> and \<^verbatim>\<open>String.prototype.trim\<close>; the non-ASCII white
  space characters of JavaScript (U+00A0, U+FEFF, U+2028, ...) are ordinary bytes here.
\<close>

datatype 'n jsval =
    JUndefined
  | JNull
  | JBool bool
  | JNum 'n
  | JStr string
  | JArr "'n jsval list"
  | JObj "(string \<times> 'n jsval) list"

datatype js_error =
    TypeError string
  | Error string
  | StoreUnavailable string
  | ConstraintViolation string

fun error_message :: "js_error \<Rightarrow> string" where
  "error_message (TypeError m) = m"
| "error_message (Error m) = m"
| "error_message (StoreUnavailable m) = m"
| "error_message (ConstraintViolation m) = m"

text \<open>
  What the JavaScript engine, the JSON serialiser and the database driver do with a
  number or with a whole value; none of it is code of the repository.
  \<^item> \<open>num_truthy n\<close>: \<^verbatim>\<open>n\<close> is neither zero nor \<^verbatim>\<open>NaN\<close>;
  \<^item> \<open>num_toString n\<close>: \<^verbatim>\<open>${n}\<close>;
  \<^item> \<open>num_toLocaleString n\<close>: \<^verbatim>\<open>n.toLocaleString()\<close> in the locale of the process;
  \<^item> \<open>num_toFixed n d\<close>: \<^verbatim>\<open>n.toFixed(d)\<close>;
  \<^item> \<open>JSON_stringify v\<close>: \<^verbatim>\<open>JSON.stringify(v)\<close>;
  \<^item> \<open>param_text v\<close>: the text the driver sends for a value that is not a string and is
    bound to a \<^verbatim>\<open>TEXT\<close> column.
\<close>

record 'n runtime =
  num_truthy :: "'n \<Rightarrow> bool"
  num_toString :: "'n \<Rightarrow> string"
  num_toLocaleString :: "'n \<Rightarrow> string"
  num_toFixed :: "'n \<Rightarrow> nat \<Rightarrow> string"
  JSON_stringify :: "'n jsval \<Rightarrow> string"
  param_text :: "'n jsval \<Rightarrow> string"

text \<open>\<^verbatim>\<open>req.body.key\<close>: the first binding of the key, \<^verbatim>\<open>undefined\<close> when there is none.\<close>

definition field :: "(string \<times> 'n jsval) list \<Rightarrow> string \<Rightarrow> 'n jsval" where
  "field kvs k = (case map_of kvs k of None \<Rightarrow> JUndefined | Some v \<Rightarrow> v)"

text \<open>
  \<^verbatim>\<open>v.key\<close> for a value that is neither \<^verbatim>\<open>undefined\<close> nor \<^verbatim>\<open>null\<close>, and a key that no
  prototype defines (the handlers read \<^verbatim>\<open>originalValue\<close>, \<^verbatim>\<open>todayValue\<close>,
  \<^verbatim>\<open>lossInValue\<close> and \<^verbatim>\<open>percentageIncrease\<close>): only an object can have it.
\<close>

fun get_prop :: "'n jsval \<Rightarrow> string \<Rightarrow> 'n jsval" where
  "get_prop (JObj kvs) k = field kvs k"
| "get_prop _ k = JUndefined"

text \<open>\<^verbatim>\<open>!v\<close> is \<open>\<not> truthy rt v\<close>.\<close>

fun truthy :: "'n runtime \<Rightarrow> 'n jsval \<Rightarrow> bool" where
  "truthy rt JUndefined = False"
| "truthy rt JNull = False"
| "truthy rt (JBool b) = b"
| "truthy rt (JNum n) = num_truthy rt n"
| "truthy rt (JStr s) = (s \<noteq> [])"
| "truthy rt (JArr vs) = True"
| "truthy rt (JObj kvs) = True"

text \<open>\<^verbatim>\<open>a || b\<close>\<close>

definition js_or :: "'n runtime \<Rightarrow> 'n jsval \<Rightarrow> 'n jsval \<Rightarrow> 'n jsval" where
  "js_or rt a b = (if truthy rt a then a else b)"

fun nullish :: "'n jsval \<Rightarrow> bool" where
  "nullish JUndefined = True"
| "nullish JNull = True"
| "nullish _ = False"

definition js_space :: "char \<Rightarrow> bool" where
  "js_space c = (c \<in> set [CHR 0x09, CHR 0x0A, CHR 0x0B, CHR 0x0C, CHR 0x0D, CHR 0x20])"

definition trim :: "string \<Rightarrow> string" where
  "trim s = rev (dropWhile js_space (rev (dropWhile js_space s)))"

text \<open>
  \<^verbatim>\<open>v.trim()\<close> for a truthy \<open>v\<close>: only a string has the method; on every other truthy
  value \<^verbatim>\<open>v.trim\<close> is not a function and the call throws.
\<close>

fun js_trim :: "string \<Rightarrow> 'n jsval \<Rightarrow> js_error + string" where
  "js_trim nm (JStr s) = Inr (trim s)"
| "js_trim nm _ = Inl (TypeError (nm @ ''.trim is not a function''))"

text \<open>
  \<^verbatim>\<open>/^[^\s@]+@[^\s@]+\.[^\s@]+$/.test(s)\<close>. The first group cannot contain \<^verbatim>\<open>@\<close>, so it is
  the longest prefix of characters that are neither white space nor \<^verbatim>\<open>@\<close>, and it must
  be followed by \<^verbatim>\<open>@\<close>; what follows must again consist of such characters and hold a
  dot that is neither its first nor its last character.
\<close>

definition addr_char :: "char \<Rightarrow> bool" where
  "addr_char c = (\<not> js_space c \<and> c \<noteq> CHR ''@'')"

definition emailRegex_test :: "string \<Rightarrow> bool" where
  "emailRegex_test s =
     (takeWhile addr_char s \<noteq> [] \<and>
      (case dropWhile addr_char s of
         [] \<Rightarrow> False
       | c # host \<Rightarrow>
           c = CHR ''@'' \<and> list_all addr_char host \<and> CHR ''.'' \<in> set (butlast (tl host))))"

section \<open>The persistent store\<close>

text \<open>
  The tables of the schema (\<^verbatim>\<open>pgTable\<close> declarations and \<^verbatim>\<open>createTables\<close>), each a list of
  rows in insertion order with the next value of its \<^verbatim>\<open>SERIAL\<close> sequence. Time stamps are
  natural numbers. \<^verbatim>\<open>newsletter_subscriptions.email\<close> and \<^verbatim>\<open>deal_sourcing_waitlist.email\<close>
  are \<^verbatim>\<open>UNIQUE\<close>; no other table has a uniqueness constraint besides its primary key
  \<^verbatim>\<open>id\<close>. A row of \<^verbatim>\<open>inflation_calculations\<close> holds its three \<^verbatim>\<open>NUMERIC\<close> columns and its
  \<^verbatim>\<open>INTEGER\<close> column as the text the driver sent for them.
\<close>

record subscription_row =
  sub_id :: nat
  sub_email :: string
  sub_createdAt :: nat

record waitlist_row =
  wl_id :: nat
  wl_name :: string
  wl_email :: string
  wl_phone :: "string option"
  wl_investmentAmount :: string
  wl_experienceLevel :: string
  wl_createdAt :: nat

record progress_row =
  lp_id :: nat
  lp_userId :: string
  lp_moduleId :: string
  lp_completed :: string
  lp_score :: "string option"
  lp_timeSpent :: "string option"
  lp_createdAt :: nat
  lp_updatedAt :: nat

record pending_row =
  pe_id :: nat
  recipientEmail :: string
  recipientName :: "string option"
  subject :: string
  htmlContent :: string
  emailType :: string
  status :: string
  errorDetails :: "string option"
  attempts :: "int option"
  pe_createdAt :: nat
  sentAt :: "nat option"

record contact_row =
  ct_id :: nat
  ct_name :: string
  ct_email :: string
  ct_phone :: "string option"
  ct_investmentAmount :: string
  ct_message :: string
  ct_createdAt :: nat

record calculation_row =
  ic_id :: nat
  ic_initialAmount :: string
  ic_years :: string
  ic_inflationRate :: string
  ic_finalAmount :: string
  ic_createdAt :: nat

record achievement_row =
  ac_id :: nat
  ac_userId :: string
  ac_badgeId :: string
  ac_title :: string
  ac_description :: string
  ac_earnedAt :: nat

record quiz_row =
  qr_id :: nat
  qr_userId :: string
  qr_quizId :: string
  qr_score :: string
  qr_totalQuestions :: string
  qr_answers :: string
  qr_completedAt :: nat

record store =
  newsletterSubscriptions :: "subscription_row list"
  newsletter_seq :: nat
  dealSourcingWaitlist :: "waitlist_row list"
  waitlist_seq :: nat
  learningProgress :: "progress_row list"
  progress_seq :: nat
  pendingEmails :: "pending_row list"
  pending_seq :: nat
  contactSubmissions :: "contact_row list"
  contact_seq :: nat
  inflationCalculations :: "calculation_row list"
  calculation_seq :: nat
  achievements :: "achievement_row list"
  achievement_seq :: nat
  quizResults :: "quiz_row list"
  quiz_seq :: nat

text \<open>
  Every call of the driver gets a fault: \<open>Some m\<close> when the store cannot be reached, or
  refuses the statement, and the call throws an error with message \<open>m\<close>; \<open>None\<close> when the
  store answers. A call that throws for its fault changes nothing. An insert that the
  store rejects for a duplicate address throws as well; it writes no row, but it has drawn
  its \<^verbatim>\<open>id\<close>, so the sequence has advanced: an insert returns the store together with its
  result.
\<close>

definition unique_violation :: "string \<Rightarrow> js_error" where
  "unique_violation c =
     ConstraintViolation
       (''duplicate key value violates unique constraint '' @ [CHR 0x22] @ c @ [CHR 0x22])"

text \<open>\<^verbatim>\<open>db.select().from(newsletterSubscriptions).where(eq(newsletterSubscriptions.email, e))\<close>\<close>

definition select_subscriptions ::
  "string option \<Rightarrow> string \<Rightarrow> store \<Rightarrow> js_error + subscription_row list" where
  "select_subscriptions fault e s =
     (case fault of
        Some m \<Rightarrow> Inl (StoreUnavailable m)
      | None \<Rightarrow> Inr (filter (\<lambda>r. sub_email r = e) (newsletterSubscriptions s)))"

text \<open>\<^verbatim>\<open>db.insert(newsletterSubscriptions).values({ email: e }).returning()\<close>\<close>

definition insert_subscription ::
  "string option \<Rightarrow> nat \<Rightarrow> string \<Rightarrow> store \<Rightarrow> (js_error + subscription_row list) \<times> store" where
  "insert_subscription fault now e s =
     (case fault of
        Some m \<Rightarrow> (Inl (StoreUnavailable m), s)
      | None \<Rightarrow>
          if e \<in> set (map sub_email (newsletterSubscriptions s))
          then (Inl (unique_violation ''newsletter_subscriptions_email_key''),
                s\<lparr>newsletter_seq := Suc (newsletter_seq s)\<rparr>)
          else
            (let r = \<lparr>sub_id = newsletter_seq s, sub_email = e, sub_createdAt = now\<rparr>
             in (Inr [r], s\<lparr>newsletterSubscriptions := newsletterSubscriptions s @ [r],
                            newsletter_seq := Suc (newsletter_seq s)\<rparr>)))"

section \<open>Configuration, environment and responses\<close>

text \<open>
  \<open>db_connected\<close>: the module variable \<^verbatim>\<open>db\<close> is not null (\<^verbatim>\<open>DATABASE_URL\<close> was set and
  the client was built). \<open>sendgrid_key\<close>: \<^verbatim>\<open>SENDGRID_API_KEY\<close> is set.
\<close>

record config =
  db_connected :: bool
  sendgrid_key :: bool

text \<open>The message handed to \<^verbatim>\<open>sgMail.send\<close> and the error it throws.\<close>

record message =
  msg_to :: string
  msg_from :: string
  msg_from_name :: "string option"
  msg_subject :: string
  msg_html :: string

record 'n send_error =
  err_message :: string
  err_code :: "'n jsval"
  err_response_body :: "'n jsval"

text \<open>
  What one request meets outside the server: the faults of its store calls, the order in
  which the store lists rows (\<open>row_rank\<close>, see \<open>returned\<close> below), the clocks (\<open>db_now\<close> for
  \<^verbatim>\<open>defaultNow()\<close>, \<open>server_now\<close> for \<^verbatim>\<open>new Date()\<close>, \<open>server_year\<close> for
  \<^verbatim>\<open>new Date().getFullYear()\<close>, \<open>server_month\<close> for \<^verbatim>\<open>new Date().getMonth() + 1\<close>) and the
  transport, which answers each message with \<open>None\<close> (sent) or the error it throws.
\<close>

record 'n env =
  select_fault :: "string option"
  insert_fault :: "string option"
  update_fault :: "string option"
  enqueue_fault :: "string option"
  row_rank :: "nat \<Rightarrow> nat"
  db_now :: nat
  server_now :: nat
  server_year :: nat
  server_month :: nat
  sgMail_send :: "message \<Rightarrow> 'n send_error option"

text \<open>
  A \<^verbatim>\<open>SELECT\<close> without \<^verbatim>\<open>ORDER BY\<close> and the \<^verbatim>\<open>RETURNING\<close> of an \<^verbatim>\<open>UPDATE\<close> list their rows in
  an order the store chooses, which need not be the order of insertion and may change
  from one statement to the next. \<open>rank\<close> is that choice: the rows come in ascending rank
  of their \<^verbatim>\<open>id\<close>. The rows of a table differ in their \<^verbatim>\<open>id\<close>, so every order of them is the
  order of some rank. The lookups of the two tables with a unique address find one row at
  most and need no rank.
\<close>

definition returned :: "(nat \<Rightarrow> nat) \<Rightarrow> ('r \<Rightarrow> nat) \<Rightarrow> 'r list \<Rightarrow> 'r list" where
  "returned rank ident rows = sort_key (\<lambda>r. rank (ident r)) rows"

text \<open>The state a handler changes: the store, and every call of \<^verbatim>\<open>sgMail.send\<close> in order.\<close>

record world =
  db :: store
  outbox :: "message list"

record 'd response =
  res_status :: nat
  res_success :: bool
  res_message :: string
  res_data :: "'d option"
  res_error :: "string option"

definition reply :: "nat \<Rightarrow> bool \<Rightarrow> string \<Rightarrow> 'd option \<Rightarrow> 'd response" where
  "reply code ok msg d =
     \<lparr>res_status = code, res_success = ok, res_message = msg, res_data = d, res_error = None\<rparr>"

text \<open>
  The \<^verbatim>\<open>catch (error)\<close> that closes every handler: whatever was thrown becomes a 500
  response carrying \<^verbatim>\<open>error.message\<close>; what the handler had already done stays done.
\<close>

definition catch_500 ::
  "string \<Rightarrow> (js_error + 'd response) \<times> world \<Rightarrow> 'd response \<times> world" where
  "catch_500 msg r =
     (case fst r of
        Inl e \<Rightarrow>
          (\<lparr>res_status = 500, res_success = False, res_message = msg, res_data = None,
            res_error = Some (error_message e)\<rparr>, snd r)
      | Inr resp \<Rightarrow> (resp, snd r))"

section \<open>POST /api/newsletter\<close>

text \<open>
  Lines 312 to 389. The lookup and the insert are two statements of the store; \<open>others\<close>
  is what other requests commit between them (the identity when the request runs alone).
  \<^verbatim>\<open>email.trim()\<close> is computed once here; the source calls it at each use. The data of a
  success response are the three columns of the row (\<^verbatim>\<open>createdAt\<close> under the name
  \<^verbatim>\<open>subscribedAt\<close>): the row itself here.
\<close>

definition newsletter_try ::
  "'n runtime \<Rightarrow> config \<Rightarrow> 'n env \<Rightarrow> (store \<Rightarrow> store) \<Rightarrow> (string \<times> 'n jsval) list \<Rightarrow> world
     \<Rightarrow> (js_error + subscription_row response) \<times> world" where
  "newsletter_try rt cfg env others body w =
     (let email = field body ''email'' in
      if \<not> truthy rt email then (Inr (reply 400 False ''Email is required'' None), w)
      else
        (case js_trim ''email'' email of
           Inl e \<Rightarrow> (Inl e, w)
         | Inr addr \<Rightarrow>
             if addr = [] then (Inr (reply 400 False ''Email is required'' None), w)
             else if \<not> emailRegex_test addr
             then (Inr (reply 400 False ''Invalid email format'' None), w)
             else if \<not> db_connected cfg
             then (Inr (reply 500 False ''Database connection not available'' None), w)
             else
               (case select_subscriptions (select_fault env) addr (db w) of
                  Inl e \<Rightarrow> (Inl e, w)
                | Inr [] \<Rightarrow>
                    (let w1 = w\<lparr>db := others (db w)\<rparr> in
                     (case insert_subscription (insert_fault env) (db_now env) addr (db w1) of
                        (Inl e, s2) \<Rightarrow> (Inl e, w1\<lparr>db := s2\<rparr>)
                      | (Inr [], s2) \<Rightarrow>
                          (Inl (Error ''Failed to create newsletter subscription''),
                           w1\<lparr>db := s2\<rparr>)
                      | (Inr (r # _), s2) \<Rightarrow>
                          (Inr (reply 201 True ''Successfully subscribed to newsletter'' (Some r)),
                           w1\<lparr>db := s2\<rparr>)))
                | Inr (x # _) \<Rightarrow>
                    (Inr (reply 200 True ''Email already subscribed to newsletter'' (Some x)),
                     w))))"

definition newsletter_handler ::
  "'n runtime \<Rightarrow> config \<Rightarrow> 'n env \<Rightarrow> (store \<Rightarrow> store) \<Rightarrow> (string \<times> 'n jsval) list \<Rightarrow> world
     \<Rightarrow> subscription_row response \<times> world" where
  "newsletter_handler rt cfg env others body w =
     catch_500 ''Failed to subscribe to newsletter'' (newsletter_try rt cfg env others body w)"

section \<open>Conversions to text\<close>

definition bind_err :: "js_error + 'a \<Rightarrow> ('a \<Rightarrow> js_error + 'b) \<Rightarrow> js_error + 'b" where
  "bind_err r f = (case r of Inl e \<Rightarrow> Inl e | Inr x \<Rightarrow> f x)"

definition has_key :: "string \<Rightarrow> (string \<times> 'a) list \<Rightarrow> bool" where
  "has_key k kvs = (k \<in> set (map fst kvs))"

text \<open>
  \<^verbatim>\<open>${v}\<close> in a template literal is \<^verbatim>\<open>ToString(v)\<close>. An array is joined with commas, its
  \<^verbatim>\<open>undefined\<close> and \<^verbatim>\<open>null\<close> elements as empty text. An object of a JSON document is
  \<^verbatim>\<open>[object Object]\<close>, unless it has a key \<^verbatim>\<open>toString\<close> of its own: that value is not
  callable, \<^verbatim>\<open>Object.prototype.valueOf\<close> gives no primitive, and the conversion throws.
\<close>

fun js_toString :: "'n runtime \<Rightarrow> 'n jsval \<Rightarrow> js_error + string"
  and js_join :: "'n runtime \<Rightarrow> 'n jsval list \<Rightarrow> js_error + string" where
  "js_toString rt JUndefined = Inr ''undefined''"
| "js_toString rt JNull = Inr ''null''"
| "js_toString rt (JBool b) = Inr (if b then ''true'' else ''false'')"
| "js_toString rt (JNum n) = Inr (num_toString rt n)"
| "js_toString rt (JStr s) = Inr s"
| "js_toString rt (JArr vs) = js_join rt vs"
| "js_toString rt (JObj kvs) =
     (if has_key ''toString'' kvs then Inl (TypeError ''Cannot convert object to primitive value'')
      else Inr ''[object Object]'')"
| "js_join rt [] = Inr []"
| "js_join rt (v # vs) =
     bind_err (if nullish v then Inr [] else js_toString rt v) (\<lambda>s.
     bind_err (js_join rt vs) (\<lambda>t.
     Inr (if vs = [] then s else s @ '','' @ t)))"

text \<open>
  \<^verbatim>\<open>v.toLocaleString()\<close> for a \<open>v\<close> that is neither \<^verbatim>\<open>undefined\<close> nor \<^verbatim>\<open>null\<close>. A string is
  itself, a boolean its \<^verbatim>\<open>toString()\<close>, a number what the locale makes of it, an array the
  join of its elements' \<^verbatim>\<open>toLocaleString()\<close>. \<^verbatim>\<open>Object.prototype.toLocaleString\<close> calls
  \<^verbatim>\<open>this.toString()\<close>; a key \<^verbatim>\<open>toLocaleString\<close> or \<^verbatim>\<open>toString\<close> of the object's own holds a
  value that is not a function, and the call throws.
\<close>

fun js_toLocaleString :: "'n runtime \<Rightarrow> 'n jsval \<Rightarrow> js_error + string"
  and js_joinLocale :: "'n runtime \<Rightarrow> 'n jsval list \<Rightarrow> js_error + string" where
  "js_toLocaleString rt JUndefined =
     Inl (TypeError ''Cannot read properties of undefined (reading toLocaleString)'')"
| "js_toLocaleString rt JNull =
     Inl (TypeError ''Cannot read properties of null (reading toLocaleString)'')"
| "js_toLocaleString rt (JBool b) = Inr (if b then ''true'' else ''false'')"
| "js_toLocaleString rt (JNum n) = Inr (num_toLocaleString rt n)"
| "js_toLocaleString rt (JStr s) = Inr s"
| "js_toLocaleString rt (JArr vs) = js_joinLocale rt vs"
| "js_toLocaleString rt (JObj kvs) =
     (if has_key ''toLocaleString'' kvs then Inl (TypeError ''toLocaleString is not a function'')
      else if has_key ''toString'' kvs then Inl (TypeError ''toString is not a function'')
      else Inr ''[object Object]'')"
| "js_joinLocale rt [] = Inr []"
| "js_joinLocale rt (v # vs) =
     bind_err (if nullish v then Inr [] else js_toLocaleString rt v) (\<lambda>s.
     bind_err (js_joinLocale rt vs) (\<lambda>t.
     Inr (if vs = [] then s else s @ '','' @ t)))"

text \<open>
  \<^verbatim>\<open>v?.toLocaleString()\<close> and \<^verbatim>\<open>v?.toFixed(d)\<close>: \<open>None\<close> is the result \<^verbatim>\<open>undefined\<close> of the
  optional chain. Only a number has \<^verbatim>\<open>toFixed\<close>.
\<close>

definition opt_toLocaleString :: "'n runtime \<Rightarrow> 'n jsval \<Rightarrow> js_error + string option" where
  "opt_toLocaleString rt v =
     (if nullish v then Inr None else bind_err (js_toLocaleString rt v) (\<lambda>s. Inr (Some s)))"

fun opt_toFixed :: "'n runtime \<Rightarrow> 'n jsval \<Rightarrow> nat \<Rightarrow> js_error + string option" where
  "opt_toFixed rt JUndefined d = Inr None"
| "opt_toFixed rt JNull d = Inr None"
| "opt_toFixed rt (JNum n) d = Inr (Some (num_toFixed rt n d))"
| "opt_toFixed rt _ d = Inl (TypeError ''toFixed is not a function'')"

text \<open>\<^verbatim>\<open>${r}\<close> for the result \<open>r\<close> of an optional chain.\<close>

fun interpolate :: "string option \<Rightarrow> string" where
  "interpolate None = ''undefined''"
| "interpolate (Some s) = s"

text \<open>The decimal digits of a calendar year, as \<^verbatim>\<open>${new Date().getFullYear()}\<close> writes it.\<close>

fun decimal :: "nat \<Rightarrow> string" where
  "decimal n =
     (if n < 10 then [''0123456789'' ! n] else decimal (n div 10) @ [''0123456789'' ! (n mod 10)])"

section \<open>The inflation report\<close>

text \<open>
  The template literal \<^verbatim>\<open>emailContent\<close> of lines 601 to 684. The fixed text between two
  interpolations is one constant, byte for byte; \<open>nl\<close> is the line feed.
\<close>

definition nl :: string where
  "nl = [CHR 0x0A]"

definition report_html_0 :: string where
  \<open>report_html_0 =
     nl @
     ''          <div style="font-family: Arial, sans-serif; max-width: 700px; margin: 0 auto; padding: 20px; line-height: 1.6; color: #333;">'' @ nl @
     ''            '' @ nl @
     ''            <div style="text-align: left; margin-bottom: 30px; border-bottom: 2px solid #ddd; padding-bottom: 15px;">'' @ nl @
     ''              <h1 style="color: #008e6d; margin: 0; font-size: 24px; font-weight: bold;">KR Property Investments</h1>'' @ nl @
     ''              <p style="margin: 5px 0 0 0; font-size: 16px; color: #666;">Your Inflation Impact Report</p>'' @ nl @
     ''            </div>'' @ nl @
     ''            '' @ nl @
     ''            <p style="margin-bottom: 20px;">Hello ''\<close>

definition report_html_1 :: string where
  \<open>report_html_1 =
     '',</p>'' @ nl @
     ''            '' @ nl @
     ''            <p style="margin-bottom: 25px;">Thank you for using our Inflation Calculator. Here'' @ [CHR 0x27] @ ''s your detailed inflation impact analysis:</p>'' @ nl @
     ''            '' @ nl @
     ''            <div style="border-top: 2px solid #ddd; margin: 30px 0 20px 0;"></div>'' @ nl @
     ''            '' @ nl @
     ''            <div style="margin: 30px 0;">'' @ nl @
     ''              <h2 style="color: #008e6d; margin: 0 0 20px 0; font-size: 20px;">'' @ [CHR 0xF0, CHR 0x9F, CHR 0x93, CHR 0x8A] @ '' Calculation Summary</h2>'' @ nl @
     ''              <ul style="list-style: none; padding: 0; margin: 0;">'' @ nl @
     ''                <li style="margin-bottom: 8px;">'' @ [CHR 0xE2, CHR 0x80, CHR 0xA2] @ '' <strong>Original Amount:</strong> '' @ [CHR 0xC2, CHR 0xA3]\<close>

definition report_html_2 :: string where
  \<open>report_html_2 =
     ''</li>'' @ nl @
     ''                <li style="margin-bottom: 8px;">'' @ [CHR 0xE2, CHR 0x80, CHR 0xA2] @ '' <strong>From:</strong> ''\<close>

definition report_html_3 :: string where
  \<open>report_html_3 =
     ''/''\<close>

definition report_html_4 :: string where
  \<open>report_html_4 =
     ''</li>'' @ nl @
     ''                <li style="margin-bottom: 8px;">'' @ [CHR 0xE2, CHR 0x80, CHR 0xA2] @ '' <strong>Today'' @ [CHR 0x27] @ ''s Value:</strong> '' @ [CHR 0xC2, CHR 0xA3]\<close>

definition report_html_5 :: string where
  \<open>report_html_5 =
     ''</li>'' @ nl @
     ''                <li style="margin-bottom: 8px;">'' @ [CHR 0xE2, CHR 0x80, CHR 0xA2] @ '' <strong>Loss in Purchasing Power:</strong> '' @ [CHR 0xC2, CHR 0xA3]\<close>

definition report_html_6 :: string where
  \<open>report_html_6 =
     ''</li>'' @ nl @
     ''                <li style="margin-bottom: 8px;">'' @ [CHR 0xE2, CHR 0x80, CHR 0xA2] @ '' <strong>Percentage Increase Needed:</strong> ''\<close>

definition report_html_7 :: string where
  \<open>report_html_7 =
     ''%</li>'' @ nl @
     ''              </ul>'' @ nl @
     ''            </div>'' @ nl @
     nl @
     ''            ''\<close>

definition report_html_8 :: string where
  \<open>report_html_8 =
     nl @
     nl @
     ''            <div style="margin: 30px 0;">'' @ nl @
     ''              <h2 style="color: #008e6d; margin: 0 0 20px 0; font-size: 20px;">'' @ [CHR 0xF0, CHR 0x9F, CHR 0x92, CHR 0xA1] @ '' Key Insight</h2>'' @ nl @
     ''              <p style="margin-bottom: 15px;">Your money has lost <strong>''\<close>

definition report_html_9 :: string where
  \<open>report_html_9 =
     ''%</strong> of its purchasing power due to inflation. To maintain the same buying power, you would need <strong>'' @ [CHR 0xC2, CHR 0xA3]\<close>

definition report_html_10 :: string where
  \<open>report_html_10 =
     ''</strong> today.</p>'' @ nl @
     ''              <p style="margin-bottom: 15px; font-style: italic; background-color: #f8f9fa; padding: 15px; border-left: 4px solid #008e6d;">"Not investing is like pouring water into a leaky bucket. Over time, no matter how full it looks, you'' @ [CHR 0x27] @ ''re left with much less than you started with."</p>'' @ nl @
     ''            </div>'' @ nl @
     nl @
     ''            <div style="margin: 30px 0;">'' @ nl @
     ''              <h2 style="color: #008e6d; margin: 0 0 20px 0; font-size: 20px;">'' @ [CHR 0xF0, CHR 0x9F, CHR 0x9A, CHR 0x80] @ '' What This Means for You</h2>'' @ nl @
     ''              <p style="margin-bottom: 15px;">Inflation silently erodes your savings. Consider investing in assets that can outpace inflation, such as:</p>'' @ nl @
     ''              <ul style="margin-bottom: 15px;">'' @ nl @
     ''                <li>Property investments</li>'' @ nl @
     ''                <li>Stock market funds</li>'' @ nl @
     ''                <li>Inflation-protected securities</li>'' @ nl @
     ''              </ul>'' @ nl @
     ''            </div>'' @ nl @
     nl @
     ''            <div style="margin: 30px 0;">'' @ nl @
     ''              <h2 style="color: #008e6d; margin: 0 0 20px 0; font-size: 20px;">'' @ [CHR 0xF0, CHR 0x9F, CHR 0x93, CHR 0x9E] @ '' Let'' @ [CHR 0x27] @ ''s Talk</h2>'' @ nl @
     ''              <p style="margin-bottom: 15px;">Want to find out how to protect your money and grow it confidently?</p>'' @ nl @
     ''              '' @ nl @
     ''              <div style="text-align: center; margin: 25px 0;">'' @ nl @
     ''                <a href="https://kr-properties.co.uk/contact" style="display: inline-block; background-color: #008e6d; color: white; text-decoration: none; padding: 15px 30px; border-radius: 5px; font-weight: bold; font-size: 16px;">Book a Personal Consultation '' @ [CHR 0xE2, CHR 0x86, CHR 0x92] @ ''</a>'' @ nl @
     ''              </div>'' @ nl @
     ''              '' @ nl @
     ''              <p style="margin-bottom: 5px;">Or contact us directly:</p>'' @ nl @
     ''              <p style="margin: 5px 0;"><strong>Email:</strong> info@kr-properties.co.uk</p>'' @ nl @
     ''              <p style="margin: 5px 0;"><strong>Phone:</strong> 020 3633 2783</p>'' @ nl @
     ''            </div>'' @ nl @
     nl @
     ''            <div style="border-top: 2px solid #ddd; margin: 30px 0 20px 0;"></div>'' @ nl @
     ''            '' @ nl @
     ''            <div style="text-align: center; color: #666; font-size: 12px; margin-top: 30px;">'' @ nl @
     ''              <p style="margin: 0;">'' @ [CHR 0xC2, CHR 0xA9] @ '' ''\<close>

definition report_html_11 :: string where
  \<open>report_html_11 =
     '' KR Property Investments. All rights reserved.</p>'' @ nl @
     ''            </div>'' @ nl @
     ''          </div>'' @ nl @
     ''        ''\<close>

definition chart_html_0 :: string where
  \<open>chart_html_0 =
     nl @
     ''            <div style="margin: 30px 0;">'' @ nl @
     ''              <h2 style="color: #008e6d; margin: 0 0 20px 0; font-size: 20px;">'' @ [CHR 0xF0, CHR 0x9F, CHR 0x93, CHR 0x8A] @ '' Visual Impact</h2>'' @ nl @
     ''              <div style="text-align: center; margin: 20px 0;">'' @ nl @
     ''                <img src="''\<close>

definition chart_html_1 :: string where
  \<open>chart_html_1 =
     ''" alt="Inflation Impact Chart" style="max-width: 100%; height: auto; border: 1px solid #ddd; border-radius: 8px;" />'' @ nl @
     ''                <p style="font-size: 12px; color: #666; margin-top: 10px; font-style: italic;">'' @ nl @
     ''                  Visual comparison showing your original amount versus what you would need today to have the same purchasing power.'' @ nl @
     ''                </p>'' @ nl @
     ''              </div>'' @ nl @
     ''            </div>'' @ nl @
     ''            ''\<close>

text \<open>
  The interpolations are evaluated from left to right, and the first one that throws ends
  the rendering. \<open>yr\<close> is \<^verbatim>\<open>new Date().getFullYear()\<close>.
\<close>

definition emailContent ::
  "'n runtime \<Rightarrow> nat \<Rightarrow> 'n jsval \<Rightarrow> 'n jsval \<Rightarrow> 'n jsval \<Rightarrow> 'n jsval \<Rightarrow> 'n jsval \<Rightarrow> 'n jsval
     \<Rightarrow> js_error + string" where
  "emailContent rt yr name amount month year chartImage calculationData =
     bind_err (js_toString rt (js_or rt name (JStr ''there''))) (\<lambda>h_name.
     bind_err (bind_err (opt_toLocaleString rt amount) (\<lambda>a.
                 if a \<noteq> None \<and> a \<noteq> Some [] then Inr a
                 else opt_toLocaleString rt (get_prop calculationData ''originalValue'')))
       (\<lambda>h_amount.
     bind_err (js_toString rt month) (\<lambda>h_month.
     bind_err (js_toString rt year) (\<lambda>h_year.
     bind_err (opt_toLocaleString rt (get_prop calculationData ''todayValue'')) (\<lambda>h_today.
     bind_err (opt_toLocaleString rt (get_prop calculationData ''lossInValue'')) (\<lambda>h_loss.
     bind_err (opt_toFixed rt (get_prop calculationData ''percentageIncrease'') 2) (\<lambda>h_pct.
     bind_err (if truthy rt chartImage
               then bind_err (js_toString rt chartImage) (\<lambda>src.
                      Inr (chart_html_0 @ src @ chart_html_1))
               else Inr [])
       (\<lambda>h_chart.
     bind_err (opt_toFixed rt (get_prop calculationData ''percentageIncrease'') 2) (\<lambda>h_pct2.
     bind_err (opt_toLocaleString rt (get_prop calculationData ''todayValue'')) (\<lambda>h_today2.
     Inr (report_html_0 @ h_name @
          report_html_1 @ interpolate h_amount @
          report_html_2 @ h_month @
          report_html_3 @ h_year @
          report_html_4 @ interpolate h_today @
          report_html_5 @ interpolate h_loss @
          report_html_6 @ interpolate h_pct @
          report_html_7 @ h_chart @
          report_html_8 @ interpolate h_pct2 @
          report_html_9 @ interpolate h_today2 @
          report_html_10 @ decimal yr @
          report_html_11)))))))))))"

section \<open>The sender loop\<close>

record sender_config =
  cfg_from :: string
  cfg_name :: string

definition senderConfigs :: "sender_config list" where
  "senderConfigs =
     [\<lparr>cfg_from = ''info@kr-properties.co.uk'', cfg_name = ''KR Property Investments''\<rparr>,
      \<lparr>cfg_from = ''noreply@kr-properties.co.uk'', cfg_name = ''KR Property Investments''\<rparr>,
      \<lparr>cfg_from = ''hello@kr-properties.co.uk'', cfg_name = ''KR Property Investments''\<rparr>]"

definition report_subject :: string where
  "report_subject = ''Your Inflation Impact Report - KR Property Investments''"

definition report_message :: "string \<Rightarrow> string \<Rightarrow> sender_config \<Rightarrow> message" where
  "report_message addr html c =
     \<lparr>msg_to = addr, msg_from = cfg_from c, msg_from_name = Some (cfg_name c),
      msg_subject = report_subject, msg_html = html\<rparr>"

text \<open>
  \<^verbatim>\<open>for (const config of senderConfigs)\<close>, lines 702 to 730, over the variables
  \<^verbatim>\<open>emailSent\<close> and \<^verbatim>\<open>emailError\<close> and the calls made so far. A call that returns sets
  \<^verbatim>\<open>emailSent\<close> and breaks; a call that throws stores the error and continues.
\<close>

fun try_senders ::
  "(message \<Rightarrow> 'e option) \<Rightarrow> (sender_config \<Rightarrow> message) \<Rightarrow> sender_config list
     \<Rightarrow> bool \<times> 'e option \<times> message list \<Rightarrow> bool \<times> 'e option \<times> message list" where
  "try_senders send mk [] st = st"
| "try_senders send mk (c # cs) (emailSent, emailError, out) =
     (case send (mk c) of
        None \<Rightarrow> (True, emailError, out @ [mk c])
      | Some configError \<Rightarrow> try_senders send mk cs (emailSent, Some configError, out @ [mk c]))"

section \<open>The pending emails\<close>

text \<open>
  A value bound to a \<^verbatim>\<open>TEXT\<close> column: a string is stored as it is, \<^verbatim>\<open>null\<close> as \<^verbatim>\<open>NULL\<close>, and
  any other value as the text the driver serialises it to.
\<close>

definition text_param :: "'n runtime \<Rightarrow> 'n jsval \<Rightarrow> string" where
  "text_param rt v = (case v of JStr s \<Rightarrow> s | _ \<Rightarrow> param_text rt v)"


text \<open>
  \<^verbatim>\<open>db.insert(pendingEmails).values({...})\<close>, lines 739 to 754: the seven columns the
  handler gives; \<^verbatim>\<open>id\<close>, \<^verbatim>\<open>attempts\<close> (\<^verbatim>\<open>DEFAULT 0\<close>), \<^verbatim>\<open>created_at\<close> and \<^verbatim>\<open>sent_at\<close> come from
  the table.
\<close>

definition insert_pending ::
  "string option \<Rightarrow> nat \<Rightarrow> string \<Rightarrow> string option \<Rightarrow> string \<Rightarrow> string \<Rightarrow> string \<Rightarrow> string
     \<Rightarrow> string option \<Rightarrow> store \<Rightarrow> js_error + store" where
  "insert_pending fault now to_addr to_name subj html kind st details s =
     (case fault of
        Some m \<Rightarrow> Inl (StoreUnavailable m)
      | None \<Rightarrow>
          Inr (s\<lparr>pendingEmails := pendingEmails s @
                    [\<lparr>pe_id = pending_seq s, recipientEmail = to_addr, recipientName = to_name,
                      subject = subj, htmlContent = html, emailType = kind, status = st,
                      errorDetails = details, attempts = Some 0, pe_createdAt = now,
                      sentAt = None\<rparr>],
                 pending_seq := Suc (pending_seq s)\<rparr>))"

definition error_details :: "'n runtime \<Rightarrow> 'n send_error option \<Rightarrow> string" where
  "error_details rt emailError =
     (case emailError of
        None \<Rightarrow> ''SendGrid configuration issue''
      | Some e \<Rightarrow>
          JSON_stringify rt
            (JObj [(''message'', JStr (err_message e)), (''code'', err_code e),
                   (''response'', err_response_body e)]))"

section \<open>POST /api/inflation-email\<close>

record 'n email_data =
  emailSent :: bool
  emailStored :: bool
  recipient :: string
  timestamp :: nat
  reported_error :: "(string \<times> 'n jsval) option"

text \<open>The report rendered from the fields of a request body.\<close>

abbreviation rendered :: "'n runtime \<Rightarrow> nat \<Rightarrow> (string \<times> 'n jsval) list \<Rightarrow> js_error + string" where
  "rendered rt yr body \<equiv>
     emailContent rt yr (field body ''name'') (field body ''amount'') (field body ''month'')
       (field body ''year'') (field body ''chartImage'') (field body ''calculationData'')"

text \<open>
  The \<^verbatim>\<open>try\<close> block of lines 598 to 772, entered when the key is configured; the result
  is \<^verbatim>\<open>emailSent\<close>, \<^verbatim>\<open>emailError\<close>, \<^verbatim>\<open>emailStored\<close> and the new state. Rendering is the only
  step that can throw out of the block, and its \<^verbatim>\<open>catch\<close> only resets \<^verbatim>\<open>emailSent\<close>. The
  insert of the pending row has a \<^verbatim>\<open>catch\<close> of its own, which only logs.
\<close>

definition send_report ::
  "'n runtime \<Rightarrow> config \<Rightarrow> 'n env \<Rightarrow> (string \<times> 'n jsval) list \<Rightarrow> string \<Rightarrow> world
     \<Rightarrow> bool \<times> 'n send_error option \<times> bool \<times> world" where
  "send_report rt cfg env body addr w =
     (case rendered rt (server_year env) body of
        Inl e \<Rightarrow> (False, None, False, w)
      | Inr html \<Rightarrow>
          (case try_senders (sgMail_send env) (report_message addr html) senderConfigs
                  (False, None, outbox w) of
             (sent, err, out) \<Rightarrow>
               (let w1 = w\<lparr>outbox := out\<rparr> in
                if sent then (True, err, False, w1)
                else if db_connected cfg then
                  (case insert_pending (enqueue_fault env) (db_now env) addr
                          (Some (text_param rt (js_or rt (field body ''name'') (JStr ''User''))))
                          report_subject html ''inflation_report'' ''pending''
                          (Some (error_details rt err)) (db w1) of
                     Inl dbError \<Rightarrow> (False, err, False, w1)
                   | Inr s' \<Rightarrow> (False, err, True, w1\<lparr>db := s'\<rparr>))
                else (False, err, False, w1))))"

definition inflation_email_try ::
  "'n runtime \<Rightarrow> config \<Rightarrow> 'n env \<Rightarrow> (string \<times> 'n jsval) list \<Rightarrow> world
     \<Rightarrow> (js_error + 'n email_data response) \<times> world" where
  "inflation_email_try rt cfg env body w =
     (let email = field body ''email''; calculationData = field body ''calculationData'' in
      if \<not> truthy rt email \<or> \<not> truthy rt calculationData
      then (Inr (reply 400 False ''Email and calculation data are required'' None), w)
      else
        (case js_trim ''email'' email of
           Inl e \<Rightarrow> (Inl e, w)
         | Inr addr \<Rightarrow>
             if \<not> emailRegex_test addr
             then (Inr (reply 400 False ''Invalid email format'' None), w)
             else
               (case (if sendgrid_key cfg then send_report rt cfg env body addr w
                      else (False, None, False, w)) of
                  (sent, err, stored, w') \<Rightarrow>
                    (Inr (reply 200 True ''Inflation email processed successfully''
                            (Some \<lparr>emailSent = sent, emailStored = stored, recipient = addr,
                                   timestamp = server_now env,
                                   reported_error =
                                     map_option (\<lambda>e. (err_message e, err_code e)) err\<rparr>)),
                     w'))))"

definition inflation_email_handler ::
  "'n runtime \<Rightarrow> config \<Rightarrow> 'n env \<Rightarrow> (string \<times> 'n jsval) list \<Rightarrow> world
     \<Rightarrow> 'n email_data response \<times> world" where
  "inflation_email_handler rt cfg env body w =
     catch_500 ''Failed to process inflation email'' (inflation_email_try rt cfg env body w)"

section \<open>POST /api/send-deal-lead\<close>

text \<open>\<^verbatim>\<open>db.select().from(dealSourcingWaitlist).where(eq(dealSourcingWaitlist.email, e))\<close>\<close>

definition select_waitlist ::
  "string option \<Rightarrow> string \<Rightarrow> store \<Rightarrow> js_error + waitlist_row list" where
  "select_waitlist fault e s =
     (case fault of
        Some m \<Rightarrow> Inl (StoreUnavailable m)
      | None \<Rightarrow> Inr (filter (\<lambda>r. wl_email r = e) (dealSourcingWaitlist s)))"

text \<open>\<^verbatim>\<open>db.insert(dealSourcingWaitlist).values({...}).returning()\<close>\<close>

definition insert_waitlist ::
  "string option \<Rightarrow> nat \<Rightarrow> string \<Rightarrow> string \<Rightarrow> string option \<Rightarrow> string \<Rightarrow> string \<Rightarrow> store
     \<Rightarrow> (js_error + waitlist_row list) \<times> store" where
  "insert_waitlist fault now nm e ph amt lvl s =
     (case fault of
        Some m \<Rightarrow> (Inl (StoreUnavailable m), s)
      | None \<Rightarrow>
          if e \<in> set (map wl_email (dealSourcingWaitlist s))
          then (Inl (unique_violation ''deal_sourcing_waitlist_email_key''),
                s\<lparr>waitlist_seq := Suc (waitlist_seq s)\<rparr>)
          else
            (let r = \<lparr>wl_id = waitlist_seq s, wl_name = nm, wl_email = e, wl_phone = ph,
                      wl_investmentAmount = amt, wl_experienceLevel = lvl, wl_createdAt = now\<rparr>
             in (Inr [r], s\<lparr>dealSourcingWaitlist := dealSourcingWaitlist s @ [r],
                            waitlist_seq := Suc (waitlist_seq s)\<rparr>)))"

text \<open>The confirmation mail of lines 879 to 901, with \<^verbatim>\<open>${name.trim()}\<close> as its one hole.\<close>

definition confirmation_html_0 :: string where
  \<open>confirmation_html_0 =
     nl @
     ''            <div style="font-family: Arial, sans-serif; max-width: 600px; margin: 0 auto; padding: 20px;">'' @ nl @
     ''              <h2 style="color: #2563eb;">Welcome to Our Deal Sourcing Waitlist!</h2>'' @ nl @
     ''              <p>Hi ''\<close>

definition confirmation_html_1 :: string where
  \<open>confirmation_html_1 =
     '',</p>'' @ nl @
     ''              <p>Thank you for joining our exclusive deal sourcing waitlist! We'' @ [CHR 0x27] @ ''re excited to have you on board.</p>'' @ nl @
     ''              <div style="background-color: #f8fafc; padding: 20px; border-radius: 8px; margin: 20px 0;">'' @ nl @
     ''                <h3 style="color: #1e40af; margin-top: 0;">What happens next?</h3>'' @ nl @
     ''                <ul>'' @ nl @
     ''                  <li>We'' @ [CHR 0x27] @ ''ll review your investment criteria</li>'' @ nl @
     ''                  <li>You'' @ [CHR 0x27] @ ''ll be among the first to hear about new opportunities</li>'' @ nl @
     ''                  <li>Our team will reach out with deals that match your requirements</li>'' @ nl @
     ''                </ul>'' @ nl @
     ''              </div>'' @ nl @
     ''              <p>If you have any questions, don'' @ [CHR 0x27] @ ''t hesitate to reach out!</p>'' @ nl @
     ''              <p>Best regards,<br><strong>The KR Property Investments Team</strong></p>'' @ nl @
     ''            </div>'' @ nl @
     ''          ''\<close>

definition confirmation_subject :: string where
  \<open>confirmation_subject =
     ''Welcome to KR Property Investments Deal Sourcing Waitlist! '' @ [CHR 0xF0, CHR 0x9F, CHR 0x8E, CHR 0xAF]\<close>

definition confirmation_message :: "string \<Rightarrow> string \<Rightarrow> message" where
  "confirmation_message addr nm =
     \<lparr>msg_to = addr, msg_from = ''deals@krpropertyinvestments.com'', msg_from_name = None,
      msg_subject = confirmation_subject,
      msg_html = confirmation_html_0 @ nm @ confirmation_html_1\<rparr>"

record waitlist_data =
  wd_id :: nat
  wd_name :: string
  wd_email :: string
  wd_joinedAt :: nat
  wd_emailSent :: "bool option"

definition waitlist_data_of :: "waitlist_row \<Rightarrow> bool option \<Rightarrow> waitlist_data" where
  "waitlist_data_of r sent =
     \<lparr>wd_id = wl_id r, wd_name = wl_name r, wd_email = wl_email r, wd_joinedAt = wl_createdAt r,
      wd_emailSent = sent\<rparr>"

text \<open>
  Lines 874 to 908: the confirmation mail, sent when the key is configured. The \<^verbatim>\<open>catch\<close>
  around the call only logs. The result is \<^verbatim>\<open>emailSent\<close> and the calls made.
\<close>

definition send_confirmation ::
  "config \<Rightarrow> 'n env \<Rightarrow> string \<Rightarrow> string \<Rightarrow> message list \<Rightarrow> bool \<times> message list" where
  "send_confirmation cfg env addr nm out =
     (if sendgrid_key cfg then
        (case sgMail_send env (confirmation_message addr nm) of
           None \<Rightarrow> (True, out @ [confirmation_message addr nm])
         | Some emailError \<Rightarrow> (False, out @ [confirmation_message addr nm]))
      else (False, out))"

text \<open>
  The values of the insert, lines 858 to 864, in the order the object literal evaluates
  them: \<^verbatim>\<open>name.trim()\<close>, \<^verbatim>\<open>email.trim()\<close>, \<^verbatim>\<open>phone ? phone.trim() : null\<close>,
  \<^verbatim>\<open>investmentAmount.trim()\<close>, \<^verbatim>\<open>experienceLevel.trim()\<close>.
\<close>

definition waitlist_values ::
  "'n runtime \<Rightarrow> (string \<times> 'n jsval) list
     \<Rightarrow> js_error + (string \<times> string option \<times> string \<times> string)" where
  "waitlist_values rt body =
     bind_err (js_trim ''name'' (field body ''name'')) (\<lambda>nm.
     bind_err (if truthy rt (field body ''phone'')
               then bind_err (js_trim ''phone'' (field body ''phone'')) (\<lambda>p. Inr (Some p))
               else Inr None) (\<lambda>ph.
     bind_err (js_trim ''investmentAmount'' (field body ''investmentAmount'')) (\<lambda>amt.
     bind_err (js_trim ''experienceLevel'' (field body ''experienceLevel'')) (\<lambda>lvl.
     Inr (nm, ph, amt, lvl)))))"

text \<open>
  Lines 804 to 929. As in the newsletter handler, \<open>others\<close> is what other requests
  commit between the lookup and the insert.
\<close>

definition send_deal_lead_try ::
  "'n runtime \<Rightarrow> config \<Rightarrow> 'n env \<Rightarrow> (store \<Rightarrow> store) \<Rightarrow> (string \<times> 'n jsval) list \<Rightarrow> world
     \<Rightarrow> (js_error + waitlist_data response) \<times> world" where
  "send_deal_lead_try rt cfg env others body w =
     (if \<not> truthy rt (field body ''name'') \<or> \<not> truthy rt (field body ''email'') \<or>
         \<not> truthy rt (field body ''investmentAmount'') \<or>
         \<not> truthy rt (field body ''experienceLevel'')
      then (Inr (reply 400 False
                   ''Name, email, investment amount, and experience level are required'' None),
            w)
      else
        (case js_trim ''email'' (field body ''email'') of
           Inl e \<Rightarrow> (Inl e, w)
         | Inr addr \<Rightarrow>
             if \<not> emailRegex_test addr
             then (Inr (reply 400 False ''Invalid email format'' None), w)
             else if \<not> db_connected cfg
             then (Inr (reply 500 False ''Database connection not available'' None), w)
             else
               (case select_waitlist (select_fault env) addr (db w) of
                  Inl e \<Rightarrow> (Inl e, w)
                | Inr (x # _) \<Rightarrow>
                    (Inr (reply 200 True ''Email already on deal sourcing waitlist''
                            (Some (waitlist_data_of x None))),
                     w)
                | Inr [] \<Rightarrow>
                    (let w1 = w\<lparr>db := others (db w)\<rparr> in
                     (case waitlist_values rt body of
                        Inl e \<Rightarrow> (Inl e, w1)
                      | Inr (nm, ph, amt, lvl) \<Rightarrow>
                          (case insert_waitlist (insert_fault env) (db_now env) nm addr ph amt lvl
                                  (db w1) of
                             (Inl e, s2) \<Rightarrow> (Inl e, w1\<lparr>db := s2\<rparr>)
                           | (Inr [], s2) \<Rightarrow>
                               (Inl (Error ''Failed to add to deal sourcing waitlist''),
                                w1\<lparr>db := s2\<rparr>)
                           | (Inr (waitlistEntry # _), s2) \<Rightarrow>
                               (case send_confirmation cfg env addr nm (outbox w1) of
                                  (sent, out) \<Rightarrow>
                                    (Inr (reply 201 True
                                            ''Successfully added to deal sourcing waitlist''
                                            (Some (waitlist_data_of waitlistEntry (Some sent)))),
                                     w1\<lparr>db := s2, outbox := out\<rparr>))))))))"

definition send_deal_lead_handler ::
  "'n runtime \<Rightarrow> config \<Rightarrow> 'n env \<Rightarrow> (store \<Rightarrow> store) \<Rightarrow> (string \<times> 'n jsval) list \<Rightarrow> world
     \<Rightarrow> waitlist_data response \<times> world" where
  "send_deal_lead_handler rt cfg env others body w =
     catch_500 ''Failed to join deal sourcing waitlist''
       (send_deal_lead_try rt cfg env others body w)"

section \<open>Learning progress\<close>

definition progress_key :: "string \<Rightarrow> string \<Rightarrow> progress_row \<Rightarrow> bool" where
  "progress_key u m r = (lp_userId r = u \<and> lp_moduleId r = m)"



text \<open>
  \<^verbatim>\<open>update(learningProgress).set({completed, score, timeSpent, updatedAt}).where(...)
  .returning()\<close>: every row of the key is overwritten, and the rows overwritten are
  returned.
\<close>

definition overwrite ::
  "string \<Rightarrow> string option \<Rightarrow> string option \<Rightarrow> nat \<Rightarrow> progress_row \<Rightarrow> progress_row" where
  "overwrite c sc ts upd r =
     r\<lparr>lp_completed := c, lp_score := sc, lp_timeSpent := ts, lp_updatedAt := upd\<rparr>"











section \<open>A runtime for examples\<close>

text \<open>
  An instance of \<open>runtime\<close> with integers for numbers, for evaluating the handlers at
  concrete requests. Integers below 1000 in absolute value are printed by JavaScript as
  they are here: \<^verbatim>\<open>(150).toLocaleString()\<close> is \<^verbatim>\<open>150\<close> and \<^verbatim>\<open>(25).toFixed(2)\<close> is \<^verbatim>\<open>25.00\<close>.
  \<open>json\<close> serialises the values the examples use: text without control characters,
  integers, booleans, \<^verbatim>\<open>null\<close>, arrays and objects, a property that is \<^verbatim>\<open>undefined\<close> being
  left out.
\<close>

definition show_int :: "int \<Rightarrow> string" where
  "show_int i = (if i < 0 then ''-'' @ decimal (nat (- i)) else decimal (nat i))"

definition json_text :: "string \<Rightarrow> string" where
  "json_text s =
     [CHR 0x22] @
     concat (map (\<lambda>c. if c = CHR 0x22 \<or> c = CHR 0x5C then [CHR 0x5C, c] else [c]) s) @
     [CHR 0x22]"

fun commas :: "string list \<Rightarrow> string" where
  "commas [] = []"
| "commas [x] = x"
| "commas (x # y # zs) = x @ '','' @ commas (y # zs)"

fun json :: "int jsval \<Rightarrow> string"
  and json_elements :: "int jsval list \<Rightarrow> string list"
  and json_members :: "(string \<times> int jsval) list \<Rightarrow> string list" where
  "json JUndefined = ''null''"
| "json JNull = ''null''"
| "json (JBool b) = (if b then ''true'' else ''false'')"
| "json (JNum n) = show_int n"
| "json (JStr s) = json_text s"
| "json (JArr vs) = ''['' @ commas (json_elements vs) @ '']''"
| "json (JObj kvs) = ''{'' @ commas (json_members kvs) @ ''}''"
| "json_elements [] = []"
| "json_elements (v # vs) = json v # json_elements vs"
| "json_members [] = []"
| "json_members ((k, v) # kvs) =
     (if v = JUndefined then json_members kvs
      else (json_text k @ '':'' @ json v) # json_members kvs)"

definition int_runtime :: "int runtime" where
  "int_runtime =
     \<lparr>num_truthy = (\<lambda>n. n \<noteq> 0),
      num_toString = show_int,
      num_toLocaleString = show_int,
      num_toFixed = (\<lambda>n d. show_int n @ (if d = 0 then [] else ''.'' @ replicate d (CHR ''0''))),
      JSON_stringify = json,
      param_text = (\<lambda>v. case v of JBool b \<Rightarrow> (if b then ''true'' else ''false'')
                             | JNum n \<Rightarrow> show_int n
                             | _ \<Rightarrow> json v)\<rparr>"

section \<open>Example requests\<close>

definition empty_store :: store where
  "empty_store =
     \<lparr>newsletterSubscriptions = [], newsletter_seq = 1, dealSourcingWaitlist = [],
      waitlist_seq = 1, learningProgress = [], progress_seq = 1, pendingEmails = [],
      pending_seq = 1, contactSubmissions = [], contact_seq = 1, inflationCalculations = [],
      calculation_seq = 1, achievements = [], achievement_seq = 1, quizResults = [],
      quiz_seq = 1\<rparr>"

definition start :: world where
  "start = \<lparr>db = empty_store, outbox = []\<rparr>"

definition server :: config where
  "server = \<lparr>db_connected = True, sendgrid_key = True\<rparr>"

definition forbidden :: "int send_error" where
  "forbidden = \<lparr>err_message = ''Forbidden'', err_code = JNum 403, err_response_body = JUndefined\<rparr>"

text \<open>
  A store that answers every call and lists rows by ascending \<^verbatim>\<open>id\<close>, in June 2025, with a
  transport that accepts every message; and the same with a transport that rejects every
  sender.
\<close>

definition delivering :: "int env" where
  "delivering =
     \<lparr>select_fault = None, insert_fault = None, update_fault = None, enqueue_fault = None,
      row_rank = (\<lambda>i. i), db_now = 1000, server_now = 1001, server_year = 2025,
      server_month = 6, sgMail_send = (\<lambda>m. None)\<rparr>"

definition rejecting :: "int env" where
  "rejecting = delivering\<lparr>sgMail_send := (\<lambda>m. Some forbidden)\<rparr>"

definition only_hello :: "int env" where
  "only_hello =
     delivering\<lparr>sgMail_send :=
       (\<lambda>m. if msg_from m = ''hello@kr-properties.co.uk'' then None else Some forbidden)\<rparr>"

definition subscribe_request :: "(string \<times> int jsval) list" where
  "subscribe_request = [(''email'', JStr ''a@b.com'')]"

definition lead_request :: "(string \<times> int jsval) list" where
  "lead_request =
     [(''name'', JStr ''Ada''), (''email'', JStr '' a@b.com ''),
      (''investmentAmount'', JStr ''50000''), (''experienceLevel'', JStr ''beginner'')]"

definition report_request :: "(string \<times> int jsval) list" where
  "report_request =
     [(''email'', JStr ''a@b.com''),
      (''calculationData'', JObj [(''todayValue'', JNum 150), (''percentageIncrease'', JNum 25)])]"

text \<open>
  What \<open>report_request\<close> renders to in the year \<open>yr\<close>: no name, amount, month, year, loss or
  chart is given.
\<close>

definition example_report :: "nat \<Rightarrow> string" where
  "example_report yr =
     report_html_0 @ ''there'' @
     report_html_1 @ ''undefined'' @
     report_html_2 @ ''undefined'' @
     report_html_3 @ ''undefined'' @
     report_html_4 @ ''150'' @
     report_html_5 @ ''undefined'' @
     report_html_6 @ ''25.00'' @
     report_html_7 @
     report_html_8 @ ''25.00'' @
     report_html_9 @ ''150'' @
     report_html_10 @ decimal yr @
     report_html_11"

definition incomplete_request :: "(string \<times> int jsval) list" where
  "incomplete_request = [(''email'', JStr ''a@b.com''), (''calculationData'', JObj [])]"

definition text_percentage_request :: "(string \<times> int jsval) list" where
  "text_percentage_request =
     [(''email'', JStr ''a@b.com''),
      (''calculationData'', JObj [(''todayValue'', JNum 150), (''percentageIncrease'', JStr ''25'')])]"

definition a_year_later :: "int env" where
  "a_year_later = delivering\<lparr>server_year := 2026\<rparr>"

definition no_store :: config where
  "no_store = \<lparr>db_connected = False, sendgrid_key = True\<rparr>"

definition no_key :: config where
  "no_key = \<lparr>db_connected = True, sendgrid_key = False\<rparr>"

definition progress_request :: "(string \<times> int jsval) list" where
  "progress_request =
     [(''userId'', JStr ''u1''), (''moduleId'', JStr ''m1''), (''completed'', JStr ''false''),
      (''score'', JStr ''40'')]"

definition progress_request_again :: "(string \<times> int jsval) list" where
  "progress_request_again =
     [(''userId'', JStr ''u1''), (''moduleId'', JStr ''m1''), (''completed'', JStr ''true''),
      (''timeSpent'', JStr ''30'')]"

text \<open>
  A second subscriber and a second lead with the same address, whose whole request runs
  between the lookup and the insert of the first.
\<close>

definition rival_subscriber :: "store \<Rightarrow> store" where
  "rival_subscriber s =
     db (snd (newsletter_handler int_runtime server delivering id subscribe_request
                \<lparr>db = s, outbox = []\<rparr>))"

definition rival_lead :: "store \<Rightarrow> store" where
  "rival_lead s =
     db (snd (send_deal_lead_handler int_runtime server delivering id lead_request
                \<lparr>db = s, outbox = []\<rparr>))"

section \<open>Facts about the address pattern\<close>

text \<open>
  \<open>emailRegex_test\<close> accepts exactly the strings the pattern describes: a group, \<^verbatim>\<open>@\<close>, a
  group, a dot, a group, each group a non-empty run of characters that are neither white
  space nor \<^verbatim>\<open>@\<close>.
\<close>

lemma addr_char_dot: "addr_char (CHR ''.'')" and addr_char_at: "\<not> addr_char (CHR ''@'')"
  by (simp_all add: addr_char_def js_space_def)

lemma emailRegex_test_language:
  "emailRegex_test s \<longleftrightarrow>
     (\<exists>a b c. s = a @ ''@'' @ b @ ''.'' @ c \<and> a \<noteq> [] \<and> b \<noteq> [] \<and> c \<noteq> [] \<and>
        list_all addr_char a \<and> list_all addr_char b \<and> list_all addr_char c)"
proof
  assume t: "emailRegex_test s"
  let ?a = "takeWhile addr_char s"
  from t obtain host where d: "dropWhile addr_char s = CHR ''@'' # host"
    and h: "list_all addr_char host" and dot: "CHR ''.'' \<in> set (butlast (tl host))"
    and a: "?a \<noteq> []"
    by (auto simp add: emailRegex_test_def split: list.splits)
  from dot obtain h0 t' where host: "host = h0 # t'" and "t' \<noteq> []"
    by (cases host; cases "tl host") auto
  then have bt: "CHR ''.'' \<in> set (butlast t')" using dot by simp
  then obtain p q where pq: "butlast t' = p @ CHR ''.'' # q"
    by (auto simp add: in_set_conv_decomp)
  have t': "t' = butlast t' @ [last t']" using \<open>t' \<noteq> []\<close> by simp
  have hostb: "host = (h0 # p) @ ''.'' @ (q @ [last t'])"
    using host pq t' by (metis append_Cons append_Nil append_assoc)
  have "s = ?a @ dropWhile addr_char s" by simp
  then have s: "s = ?a @ ''@'' @ (h0 # p) @ ''.'' @ (q @ [last t'])"
    using d hostb by simp
  have "list_all addr_char ?a"
    by (simp add: list_all_iff) (meson set_takeWhileD)
  moreover have "list_all addr_char (h0 # p)" "list_all addr_char (q @ [last t'])"
    using h hostb by simp_all
  ultimately show "\<exists>a b c. s = a @ ''@'' @ b @ ''.'' @ c \<and> a \<noteq> [] \<and> b \<noteq> [] \<and> c \<noteq> [] \<and>
        list_all addr_char a \<and> list_all addr_char b \<and> list_all addr_char c"
    using s a by blast
next
  assume "\<exists>a b c. s = a @ ''@'' @ b @ ''.'' @ c \<and> a \<noteq> [] \<and> b \<noteq> [] \<and> c \<noteq> [] \<and>
        list_all addr_char a \<and> list_all addr_char b \<and> list_all addr_char c"
  then obtain a b c where s: "s = a @ CHR ''@'' # b @ CHR ''.'' # c"
    and ne: "a \<noteq> []" "b \<noteq> []" "c \<noteq> []"
    and ok: "list_all addr_char a" "list_all addr_char b" "list_all addr_char c"
    by auto
  have tw: "takeWhile addr_char s = a"
    unfolding s using ok(1) addr_char_at by (simp add: takeWhile_append2 list_all_iff)
  have dw: "dropWhile addr_char s = CHR ''@'' # b @ CHR ''.'' # c"
    unfolding s using ok(1) addr_char_at by (simp add: dropWhile_append2 list_all_iff)
  obtain b0 b' where b: "b = b0 # b'" using ne(2) by (cases b) auto
  have c: "c = butlast c @ [last c]" using ne(3) by simp
  have "butlast (tl (b @ CHR ''.'' # c)) = b' @ CHR ''.'' # butlast c"
    using b ne(3) by (simp add: butlast_append)
  then have "CHR ''.'' \<in> set (butlast (tl (b @ CHR ''.'' # c)))" by simp
  moreover have "list_all addr_char (b @ CHR ''.'' # c)"
    using ok addr_char_dot by simp
  ultimately show "emailRegex_test s"
    using tw dw ne(1) by (simp add: emailRegex_test_def)
qed

section \<open>Facts about the sender loop\<close>

lemma try_senders_walk:
  "try_senders send mk cs (sent, err, out) =
     (let failed = takeWhile (\<lambda>c. send (mk c) \<noteq> None) cs in
      (sent \<or> length failed < length cs,
       if failed = [] then err else send (mk (last failed)),
       out @ map mk (take (Suc (length failed)) cs)))"
proof (induction cs arbitrary: sent err out)
  case Nil
  then show ?case by simp
next
  case (Cons c cs)
  show ?case
  proof (cases "send (mk c)")
    case None
    then show ?thesis by simp
  next
    case (Some e)
    then show ?thesis
      by (simp add: Cons.IH Let_def)
  qed
qed

lemma takeWhile_first_success:
  assumes "i < length cs" and "\<forall>j<i. P (cs ! j)" and "\<not> P (cs ! i)"
  shows "takeWhile P cs = take i cs"
  using assms
proof (induction cs arbitrary: i)
  case Nil
  then show ?case by simp
next
  case (Cons c cs)
  show ?case
  proof (cases i)
    case 0
    with Cons.prems show ?thesis by simp
  next
    case (Suc k)
    with Cons.prems have "P c" by auto
    moreover have "takeWhile P cs = take k cs"
      using Cons.prems Suc by (intro Cons.IH) auto
    ultimately show ?thesis using Suc by simp
  qed
qed


section \<open>Facts about the store and the handlers\<close>

lemmas example_defs = empty_store_def start_def server_def forbidden_def delivering_def
  rejecting_def only_hello_def subscribe_request_def lead_request_def report_request_def
  progress_request_def progress_request_again_def incomplete_request_def
  text_percentage_request_def a_year_later_def
  no_store_def no_key_def

lemmas string_defs = trim_def js_space_def addr_char_def emailRegex_test_def field_def


lemma catch_500_Inr: "catch_500 msg (Inr r, w) = (r, w)"
  by (simp add: catch_500_def)

lemma catch_500_Inl:
  "catch_500 msg (Inl e, w) =
     (\<lparr>res_status = 500, res_success = False, res_message = msg, res_data = None,
       res_error = Some (error_message e)\<rparr>, w)"
  by (simp add: catch_500_def)

lemma reply_sel:
  "res_status (reply c ok m d) = c" "res_success (reply c ok m d) = ok"
  "res_message (reply c ok m d) = m" "res_data (reply c ok m d) = d"
  "res_error (reply c ok m d) = None"
  by (simp_all add: reply_def)

lemma select_waitlist_empty:
  "select_waitlist None a s = Inr [] \<longleftrightarrow> a \<notin> set (map wl_email (dealSourcingWaitlist s))"
  by (auto simp add: select_waitlist_def filter_empty_conv)

lemma select_waitlist_fault: "select_waitlist (Some m) a s = Inl (StoreUnavailable m)"
  by (simp add: select_waitlist_def)

lemma select_waitlist_None: "select_waitlist None a s = Inr (filter (\<lambda>r. wl_email r = a) (dealSourcingWaitlist s))"
  by (simp add: select_waitlist_def)

lemma insert_waitlist_fresh:
  "a \<notin> set (map wl_email (dealSourcingWaitlist s)) \<Longrightarrow>
   insert_waitlist None now nm a ph amt lvl s =
     (Inr [\<lparr>wl_id = waitlist_seq s, wl_name = nm, wl_email = a, wl_phone = ph,
             wl_investmentAmount = amt, wl_experienceLevel = lvl, wl_createdAt = now\<rparr>],
          s\<lparr>dealSourcingWaitlist := dealSourcingWaitlist s @
                [\<lparr>wl_id = waitlist_seq s, wl_name = nm, wl_email = a, wl_phone = ph,
                  wl_investmentAmount = amt, wl_experienceLevel = lvl, wl_createdAt = now\<rparr>],
             waitlist_seq := Suc (waitlist_seq s)\<rparr>)"
  by (simp add: insert_waitlist_def Let_def)

lemma insert_waitlist_fault:
  "insert_waitlist (Some m) now nm a ph amt lvl s = (Inl (StoreUnavailable m), s)"
  by (simp add: insert_waitlist_def)



lemma filter_key_empty: "a \<notin> set (map f xs) \<Longrightarrow> filter (\<lambda>r. f r = a) xs = []"
  by (induction xs) auto

lemma trim_nonempty: "trim s \<noteq> [] \<Longrightarrow> s \<noteq> []"
  by (auto simp add: trim_def)

lemma select_subscriptions_None:
  "select_subscriptions None a s = Inr (filter (\<lambda>r. sub_email r = a) (newsletterSubscriptions s))"
  by (simp add: select_subscriptions_def)

lemma select_subscriptions_fault: "select_subscriptions (Some m) a s = Inl (StoreUnavailable m)"
  by (simp add: select_subscriptions_def)

lemma insert_subscription_fresh:
  "a \<notin> set (map sub_email (newsletterSubscriptions s)) \<Longrightarrow>
   insert_subscription None now a s =
     (Inr [\<lparr>sub_id = newsletter_seq s, sub_email = a, sub_createdAt = now\<rparr>],
          s\<lparr>newsletterSubscriptions := newsletterSubscriptions s @
                [\<lparr>sub_id = newsletter_seq s, sub_email = a, sub_createdAt = now\<rparr>],
             newsletter_seq := Suc (newsletter_seq s)\<rparr>)"
  by (simp add: insert_subscription_def Let_def)

lemma insert_subscription_duplicate:
  "a \<in> set (map sub_email (newsletterSubscriptions s)) \<Longrightarrow>
   insert_subscription None now a s =
     (Inl (unique_violation ''newsletter_subscriptions_email_key''),
      s\<lparr>newsletter_seq := Suc (newsletter_seq s)\<rparr>)"
  by (simp add: insert_subscription_def)

lemma insert_waitlist_duplicate:
  "a \<in> set (map wl_email (dealSourcingWaitlist s)) \<Longrightarrow>
   insert_waitlist None now nm a ph amt lvl s =
     (Inl (unique_violation ''deal_sourcing_waitlist_email_key''),
      s\<lparr>waitlist_seq := Suc (waitlist_seq s)\<rparr>)"
  by (simp add: insert_waitlist_def)

text \<open>The paths of the newsletter handler.\<close>

lemma newsletter_existing:
  assumes "field body ''email'' = JStr s" and "trim s \<noteq> []" and "emailRegex_test (trim s)"
    and "db_connected cfg" and "select_fault env = None"
    and "filter (\<lambda>r. sub_email r = trim s) (newsletterSubscriptions (db w)) = x # xs"
  shows "newsletter_handler rt cfg env others body w =
           (reply 200 True ''Email already subscribed to newsletter'' (Some x), w)"
  using assms trim_nonempty[of s]
  by (simp add: newsletter_handler_def newsletter_try_def catch_500_Inr select_subscriptions_None)

lemma newsletter_insert:
  assumes "field body ''email'' = JStr s" and "trim s \<noteq> []" and "emailRegex_test (trim s)"
    and "db_connected cfg" and "select_fault env = None"
    and "trim s \<notin> set (map sub_email (newsletterSubscriptions (db w)))"
  shows "newsletter_handler rt cfg env others body w =
           (case insert_subscription (insert_fault env) (db_now env) (trim s) (others (db w)) of
              (Inl e, s2) \<Rightarrow>
                (\<lparr>res_status = 500, res_success = False,
                  res_message = ''Failed to subscribe to newsletter'', res_data = None,
                  res_error = Some (error_message e)\<rparr>, w\<lparr>db := s2\<rparr>)
            | (Inr rows, s2) \<Rightarrow>
                (reply 201 True ''Successfully subscribed to newsletter'' (Some (hd rows)),
                 w\<lparr>db := s2\<rparr>))"
proof -
  have "filter (\<lambda>r. sub_email r = trim s) (newsletterSubscriptions (db w)) = []"
    using assms(6) by (rule filter_key_empty)
  then show ?thesis
    using assms trim_nonempty[of s]
    by (cases "insert_fault env")
       (auto simp add: newsletter_handler_def newsletter_try_def catch_500_Inr catch_500_Inl
          select_subscriptions_None insert_subscription_def Let_def)
qed

lemma newsletter_twice:
  assumes b1: "field body1 ''email'' = JStr s1" and b2: "field body2 ''email'' = JStr s2"
    and k: "trim s1 = k" "trim s2 = k" "k \<noteq> []" "emailRegex_test k"
    and cfg: "db_connected cfg"
    and e1: "select_fault env1 = None" "insert_fault env1 = None"
    and e2: "select_fault env2 = None"
    and fresh: "k \<notin> set (map sub_email (newsletterSubscriptions (db w)))"
  defines "row \<equiv> \<lparr>sub_id = newsletter_seq (db w), sub_email = k, sub_createdAt = db_now env1\<rparr>"
  defines "w1 \<equiv> w\<lparr>db := (db w)\<lparr>newsletterSubscriptions := newsletterSubscriptions (db w) @ [row],
                              newsletter_seq := Suc (newsletter_seq (db w))\<rparr>\<rparr>"
  shows "newsletter_handler rt cfg env1 id body1 w =
           (reply 201 True ''Successfully subscribed to newsletter'' (Some row), w1)"
    and "newsletter_handler rt cfg env2 id body2 w1 =
           (reply 200 True ''Email already subscribed to newsletter'' (Some row), w1)"
proof -
  show "newsletter_handler rt cfg env1 id body1 w =
           (reply 201 True ''Successfully subscribed to newsletter'' (Some row), w1)"
    using newsletter_insert[of body1 s1 cfg env1 w rt id] b1 k cfg e1 fresh
    by (simp add: insert_subscription_fresh row_def w1_def)
  have "filter (\<lambda>r. sub_email r = trim s2) (newsletterSubscriptions (db w1)) = [row]"
    using fresh k by (simp add: w1_def row_def filter_key_empty)
  then show "newsletter_handler rt cfg env2 id body2 w1 =
           (reply 200 True ''Email already subscribed to newsletter'' (Some row), w1)"
    using newsletter_existing[of body2 s2 cfg env2 w1 row "[]" rt id] b2 k cfg e2
    by simp
qed

text \<open>The paths of the deal lead handler.\<close>

lemma deal_lead_existing:
  assumes "truthy rt (field body ''name'')" and "truthy rt (field body ''investmentAmount'')"
    and "truthy rt (field body ''experienceLevel'')"
    and "field body ''email'' = JStr s" and "trim s \<noteq> []" and "emailRegex_test (trim s)"
    and "db_connected cfg" and "select_fault env = None"
    and "filter (\<lambda>r. wl_email r = trim s) (dealSourcingWaitlist (db w)) = x # xs"
  shows "send_deal_lead_handler rt cfg env others body w =
           (reply 200 True ''Email already on deal sourcing waitlist''
              (Some (waitlist_data_of x None)), w)"
  using assms trim_nonempty[of s]
  by (simp add: send_deal_lead_handler_def send_deal_lead_try_def catch_500_Inr
      select_waitlist_None)

lemma deal_lead_insert:
  assumes "truthy rt (field body ''name'')" and "truthy rt (field body ''investmentAmount'')"
    and "truthy rt (field body ''experienceLevel'')"
    and "field body ''email'' = JStr s" and "trim s \<noteq> []" and "emailRegex_test (trim s)"
    and "db_connected cfg" and "select_fault env = None"
    and "trim s \<notin> set (map wl_email (dealSourcingWaitlist (db w)))"
    and "waitlist_values rt body = Inr (nm, ph, amt, lvl)"
  shows "send_deal_lead_handler rt cfg env others body w =
           (case insert_waitlist (insert_fault env) (db_now env) nm (trim s) ph amt lvl
                   (others (db w)) of
              (Inl e, s2) \<Rightarrow>
                (\<lparr>res_status = 500, res_success = False,
                  res_message = ''Failed to join deal sourcing waitlist'', res_data = None,
                  res_error = Some (error_message e)\<rparr>, w\<lparr>db := s2\<rparr>)
            | (Inr rows, s2) \<Rightarrow>
                (reply 201 True ''Successfully added to deal sourcing waitlist''
                   (Some (waitlist_data_of (hd rows)
                      (Some (fst (send_confirmation cfg env (trim s) nm (outbox w)))))),
                 w\<lparr>db := s2, outbox := snd (send_confirmation cfg env (trim s) nm (outbox w))\<rparr>))"
proof -
  have "filter (\<lambda>r. wl_email r = trim s) (dealSourcingWaitlist (db w)) = []"
    using assms(9) by (rule filter_key_empty)
  then show ?thesis
    using assms trim_nonempty[of s]
    by (cases "insert_fault env")
       (auto simp add: send_deal_lead_handler_def send_deal_lead_try_def catch_500_Inr
          catch_500_Inl select_waitlist_None insert_waitlist_def Let_def split: prod.splits)
qed

lemma deal_lead_twice:
  assumes b1: "truthy rt (field body1 ''name'')" "truthy rt (field body1 ''investmentAmount'')"
      "truthy rt (field body1 ''experienceLevel'')" "field body1 ''email'' = JStr s1"
      "waitlist_values rt body1 = Inr (nm, ph, amt, lvl)"
    and b2: "truthy rt (field body2 ''name'')" "truthy rt (field body2 ''investmentAmount'')"
      "truthy rt (field body2 ''experienceLevel'')" "field body2 ''email'' = JStr s2"
    and k: "trim s1 = k" "trim s2 = k" "k \<noteq> []" "emailRegex_test k"
    and cfg: "db_connected cfg"
    and e1: "select_fault env1 = None" "insert_fault env1 = None"
    and e2: "select_fault env2 = None"
    and fresh: "k \<notin> set (map wl_email (dealSourcingWaitlist (db w)))"
  defines "row \<equiv> \<lparr>wl_id = waitlist_seq (db w), wl_name = nm, wl_email = k, wl_phone = ph,
                   wl_investmentAmount = amt, wl_experienceLevel = lvl,
                   wl_createdAt = db_now env1\<rparr>"
  defines "w1 \<equiv> w\<lparr>db := (db w)\<lparr>dealSourcingWaitlist := dealSourcingWaitlist (db w) @ [row],
                              waitlist_seq := Suc (waitlist_seq (db w))\<rparr>,
                   outbox := snd (send_confirmation cfg env1 k nm (outbox w))\<rparr>"
  shows "send_deal_lead_handler rt cfg env1 id body1 w =
           (reply 201 True ''Successfully added to deal sourcing waitlist''
              (Some (waitlist_data_of row (Some (fst (send_confirmation cfg env1 k nm (outbox w)))))),
            w1)"
    and "send_deal_lead_handler rt cfg env2 id body2 w1 =
           (reply 200 True ''Email already on deal sourcing waitlist''
              (Some (waitlist_data_of row None)), w1)"
proof -
  show "send_deal_lead_handler rt cfg env1 id body1 w =
           (reply 201 True ''Successfully added to deal sourcing waitlist''
              (Some (waitlist_data_of row (Some (fst (send_confirmation cfg env1 k nm (outbox w)))))),
            w1)"
    using deal_lead_insert[of rt body1 s1 cfg env1 w nm ph amt lvl id] b1 k cfg e1 fresh
    by (simp add: insert_waitlist_fresh row_def w1_def)
  have "filter (\<lambda>r. wl_email r = trim s2) (dealSourcingWaitlist (db w1)) = [row]"
    using fresh k by (simp add: w1_def row_def filter_key_empty)
  then show "send_deal_lead_handler rt cfg env2 id body2 w1 =
           (reply 200 True ''Email already on deal sourcing waitlist''
              (Some (waitlist_data_of row None)), w1)"
    using deal_lead_existing[of rt body2 s2 cfg env2 w1 row "[]" id] b2 k cfg e2
    by simp
qed

text \<open>The lost race.\<close>

lemma newsletter_lost_race:
  assumes "field body ''email'' = JStr s" and "trim s \<noteq> []" and "emailRegex_test (trim s)"
    and "db_connected cfg" and "select_fault env = None" and "insert_fault env = None"
    and "trim s \<notin> set (map sub_email (newsletterSubscriptions (db w)))"
    and "trim s \<in> set (map sub_email (newsletterSubscriptions (others (db w))))"
  shows "newsletter_handler rt cfg env others body w =
           (\<lparr>res_status = 500, res_success = False,
             res_message = ''Failed to subscribe to newsletter'', res_data = None,
             res_error = Some (error_message (unique_violation ''newsletter_subscriptions_email_key''))\<rparr>,
            w\<lparr>db := (others (db w))\<lparr>newsletter_seq := Suc (newsletter_seq (others (db w)))\<rparr>\<rparr>)"
  using newsletter_insert[of body s cfg env w rt others] assms
  by (simp add: insert_subscription_duplicate)

lemma deal_lead_lost_race:
  assumes "truthy rt (field body ''name'')" and "truthy rt (field body ''investmentAmount'')"
    and "truthy rt (field body ''experienceLevel'')"
    and "field body ''email'' = JStr s" and "trim s \<noteq> []" and "emailRegex_test (trim s)"
    and "db_connected cfg" and "select_fault env = None" and "insert_fault env = None"
    and "trim s \<notin> set (map wl_email (dealSourcingWaitlist (db w)))"
    and "waitlist_values rt body = Inr (nm, ph, amt, lvl)"
    and "trim s \<in> set (map wl_email (dealSourcingWaitlist (others (db w))))"
  shows "send_deal_lead_handler rt cfg env others body w =
           (\<lparr>res_status = 500, res_success = False,
             res_message = ''Failed to join deal sourcing waitlist'', res_data = None,
             res_error = Some (error_message (unique_violation ''deal_sourcing_waitlist_email_key''))\<rparr>,
            w\<lparr>db := (others (db w))\<lparr>waitlist_seq := Suc (waitlist_seq (others (db w)))\<rparr>\<rparr>)"
  using deal_lead_insert[of rt body s cfg env w nm ph amt lvl others] assms
  by (simp add: insert_waitlist_duplicate)

lemma rival_subscriber_start:
  "rival_subscriber (db start) =
     empty_store\<lparr>newsletterSubscriptions :=
                    [\<lparr>sub_id = 1, sub_email = ''a@b.com'', sub_createdAt = 1000\<rparr>],
                 newsletter_seq := 2\<rparr>"
  by (simp add: rival_subscriber_def newsletter_handler_def newsletter_try_def catch_500_def
      reply_def select_subscriptions_def insert_subscription_def example_defs string_defs Let_def)

lemma rival_lead_start:
  "rival_lead (db start) =
     empty_store\<lparr>dealSourcingWaitlist :=
                    [\<lparr>wl_id = 1, wl_name = ''Ada'', wl_email = ''a@b.com'', wl_phone = None,
                      wl_investmentAmount = ''50000'', wl_experienceLevel = ''beginner'',
                      wl_createdAt = 1000\<rparr>],
                 waitlist_seq := 2\<rparr>"
  by (simp add: rival_lead_def send_deal_lead_handler_def send_deal_lead_try_def catch_500_def
      reply_def select_waitlist_def insert_waitlist_def waitlist_values_def bind_err_def
      send_confirmation_def waitlist_data_of_def example_defs string_defs Let_def)



lemma progress_key_overwrite [simp]:
  "progress_key u m (overwrite c sc ts upd r) = progress_key u m r"
  by (simp add: progress_key_def overwrite_def)

lemma lp_id_overwrite [simp]: "lp_id (overwrite c sc ts upd r) = lp_id r"
  by (simp add: overwrite_def)

lemma overwrite_payload [simp]:
  "lp_completed (overwrite c sc ts upd r) = c" "lp_score (overwrite c sc ts upd r) = sc"
  "lp_timeSpent (overwrite c sc ts upd r) = ts" "lp_updatedAt (overwrite c sc ts upd r) = upd"
  "lp_userId (overwrite c sc ts upd r) = lp_userId r"
  "lp_moduleId (overwrite c sc ts upd r) = lp_moduleId r"
  "lp_createdAt (overwrite c sc ts upd r) = lp_createdAt r"
  by (simp_all add: overwrite_def)











lemma bind_err_simps [simp]: "bind_err (Inr x) f = f x" "bind_err (Inl e) f = Inl e"
  by (simp_all add: bind_err_def)

lemma bind_err_Inl_iff:
  "bind_err r f = Inl e \<longleftrightarrow> r = Inl e \<or> (\<exists>x. r = Inr x \<and> f x = Inl e)"
  by (cases r) auto

lemma js_toString_error:
  "js_toString rt v = Inl e \<Longrightarrow> \<exists>m. e = TypeError m"
  "js_join rt vs = Inl e \<Longrightarrow> \<exists>m. e = TypeError m"
  by (induction rt v and rt vs arbitrary: e and e rule: js_toString_js_join.induct)
     (auto simp add: bind_err_Inl_iff split: if_splits)

lemma js_toLocaleString_error:
  "js_toLocaleString rt v = Inl e \<Longrightarrow> \<exists>m. e = TypeError m"
  "js_joinLocale rt vs = Inl e \<Longrightarrow> \<exists>m. e = TypeError m"
  by (induction rt v and rt vs arbitrary: e and e rule: js_toLocaleString_js_joinLocale.induct)
     (auto simp add: bind_err_Inl_iff split: if_splits)

lemma opt_toLocaleString_error:
  "opt_toLocaleString rt v = Inl e \<Longrightarrow> \<exists>m. e = TypeError m"
  by (auto simp add: opt_toLocaleString_def bind_err_Inl_iff js_toLocaleString_error
      split: if_splits)

lemma opt_toFixed_error: "opt_toFixed rt v d = Inl e \<Longrightarrow> \<exists>m. e = TypeError m"
  by (cases v) auto

lemma emailContent_error:
  assumes "emailContent rt yr name amount month year chartImage calculationData = Inl e"
  shows "\<exists>m. e = TypeError m"
  using assms
  by (auto simp add: emailContent_def bind_err_Inl_iff
      dest: js_toString_error opt_toLocaleString_error opt_toFixed_error split: if_splits)

lemma try_senders_exhausted:
  assumes "\<forall>c \<in> set cs. send (mk c) \<noteq> None"
  shows "try_senders send mk cs (False, None, out) =
           (False, (if cs = [] then None else send (mk (last cs))), out @ map mk cs)"
proof -
  have tw: "takeWhile (\<lambda>c. send (mk c) \<noteq> None) cs = cs" using assms by simp
  have "try_senders send mk cs (False, None, out) =
          (False \<or> length cs < length cs,
           if cs = [] then None else send (mk (last cs)),
           out @ map mk (take (Suc (length cs)) cs))"
    by (simp only: try_senders_walk tw Let_def)
  then show ?thesis by simp
qed

lemma try_senders_outbox:
  "\<exists>sent err k. try_senders send mk cs (False, None, out) = (sent, err, out @ map mk (take k cs))"
  by (simp only: try_senders_walk Let_def) blast

lemma last_senderConfigs:
  "last senderConfigs =
     \<lparr>cfg_from = ''hello@kr-properties.co.uk'', cfg_name = ''KR Property Investments''\<rparr>"
  "senderConfigs \<noteq> []"
  by (simp_all add: senderConfigs_def)

text \<open>The paths of the inflation email handler.\<close>

lemma js_trim_truthy:
  "truthy rt v \<Longrightarrow> js_trim nm v = Inr a \<Longrightarrow> \<exists>s. v = JStr s \<and> s \<noteq> [] \<and> a = trim s"
  by (cases v) auto

lemma inflation_email_valid:
  assumes "field body ''email'' = JStr s" and "s \<noteq> []"
    and "truthy rt (field body ''calculationData'')" and "emailRegex_test (trim s)"
  shows "inflation_email_handler rt cfg env body w =
           (case (if sendgrid_key cfg then send_report rt cfg env body (trim s) w
                  else (False, None, False, w)) of
              (sent, err, stored, w') \<Rightarrow>
                (reply 200 True ''Inflation email processed successfully''
                   (Some \<lparr>emailSent = sent, emailStored = stored, recipient = trim s,
                          timestamp = server_now env,
                          reported_error = map_option (\<lambda>e. (err_message e, err_code e)) err\<rparr>),
                 w'))"
  using assms
  by (simp add: inflation_email_handler_def inflation_email_try_def catch_500_def
      split: prod.splits)

lemma inflation_email_rejected:
  assumes "\<not> (\<exists>s. field body ''email'' = JStr s \<and> s \<noteq> [] \<and>
               truthy rt (field body ''calculationData'') \<and> emailRegex_test (trim s))"
  shows "snd (inflation_email_handler rt cfg env body w) = w \<and>
         \<not> res_success (fst (inflation_email_handler rt cfg env body w))"
proof (cases "truthy rt (field body ''email'') \<and> truthy rt (field body ''calculationData'')")
  case False
  then show ?thesis
    by (auto simp add: inflation_email_handler_def inflation_email_try_def catch_500_def reply_def)
next
  case valid: True
  show ?thesis
  proof (cases "js_trim ''email'' (field body ''email'')")
    case (Inl e)
    with valid show ?thesis
      by (simp add: inflation_email_handler_def inflation_email_try_def catch_500_def)
  next
    case (Inr addr)
    with valid js_trim_truthy[of rt "field body ''email''" "''email''" addr] assms
    have "\<not> emailRegex_test addr" by auto
    with valid Inr show ?thesis
      by (simp add: inflation_email_handler_def inflation_email_try_def catch_500_def reply_def)
  qed
qed

lemma send_report_render_failed:
  "rendered rt (server_year env) body = Inl e \<Longrightarrow>
   send_report rt cfg env body addr w = (False, None, False, w)"
  by (simp add: send_report_def)

lemma send_report_exhausted:
  assumes "rendered rt (server_year env) body = Inr html"
    and "\<forall>c \<in> set senderConfigs. sgMail_send env (report_message addr html c) \<noteq> None"
  shows "send_report rt cfg env body addr w =
           (if db_connected cfg \<and> enqueue_fault env = None
            then (False, sgMail_send env (report_message addr html (last senderConfigs)), True,
                  w\<lparr>outbox := outbox w @ map (report_message addr html) senderConfigs,
                    db := (db w)\<lparr>pendingEmails := pendingEmails (db w) @
                      [\<lparr>pe_id = pending_seq (db w), recipientEmail = addr,
                        recipientName =
                          Some (text_param rt (js_or rt (field body ''name'') (JStr ''User''))),
                        subject = report_subject, htmlContent = html,
                        emailType = ''inflation_report'', status = ''pending'',
                        errorDetails =
                          Some (error_details rt
                                  (sgMail_send env
                                     (report_message addr html (last senderConfigs)))),
                        attempts = Some 0, pe_createdAt = db_now env, sentAt = None\<rparr>],
                      pending_seq := Suc (pending_seq (db w))\<rparr>\<rparr>)
            else (False, sgMail_send env (report_message addr html (last senderConfigs)), False,
                  w\<lparr>outbox := outbox w @ map (report_message addr html) senderConfigs\<rparr>))"
  using assms try_senders_exhausted[of senderConfigs "sgMail_send env"
      "report_message addr html" "outbox w"]
  by (cases "enqueue_fault env")
     (simp_all add: send_report_def insert_pending_def last_senderConfigs Let_def)

lemma send_report_bodies:
  "case send_report rt cfg env body addr w of
     (sent, err, stored, w') \<Rightarrow>
       (\<forall>msg \<in> set (drop (length (outbox w)) (outbox w')).
          rendered rt (server_year env) body = Inr (msg_html msg)) \<and>
       (\<forall>p \<in> set (drop (length (pendingEmails (db w))) (pendingEmails (db w'))).
          rendered rt (server_year env) body = Inr (htmlContent p))"
proof (cases "rendered rt (server_year env) body")
  case (Inl e)
  then show ?thesis by (simp add: send_report_def)
next
  case (Inr html)
  obtain sent err k where t:
    "try_senders (sgMail_send env) (report_message addr html) senderConfigs
       (False, None, outbox w) =
     (sent, err, outbox w @ map (report_message addr html) (take k senderConfigs))"
    using try_senders_outbox by blast
  have m: "\<forall>msg \<in> set (map (report_message addr html) (take k senderConfigs)).
             msg_html msg = html"
    by (auto simp add: report_message_def)
  show ?thesis
    using Inr t m
    by (cases "enqueue_fault env")
       (auto simp add: send_report_def insert_pending_def Let_def)
qed

lemma show_int_small: "show_int 150 = ''150''" "show_int 25 = ''25''"
  by (simp_all add: show_int_def)

lemma rendered_report_request:
  "rendered int_runtime yr report_request = Inr (example_report yr)"
  by (simp add: emailContent_def example_report_def report_request_def field_def js_or_def
      opt_toLocaleString_def int_runtime_def show_int_small numeral_2_eq_2
      del: decimal.simps)

lemma rendered_incomplete_request:
  "rendered rt yr [(''email'', JStr ''a@b.com''), (''calculationData'', JObj [])] =
     Inr (report_html_0 @ ''there'' @
          report_html_1 @ ''undefined'' @
          report_html_2 @ ''undefined'' @
          report_html_3 @ ''undefined'' @
          report_html_4 @ ''undefined'' @
          report_html_5 @ ''undefined'' @
          report_html_6 @ ''undefined'' @
          report_html_7 @
          report_html_8 @ ''undefined'' @
          report_html_9 @ ''undefined'' @
          report_html_10 @ decimal yr @
          report_html_11)"
  by (simp add: emailContent_def field_def js_or_def opt_toLocaleString_def del: decimal.simps)

lemma example_report_years: "example_report 2025 \<noteq> example_report 2026"
  by (simp add: example_report_def)

lemma valid_report_request:
  "field report_request ''email'' = JStr ''a@b.com''" "''a@b.com'' \<noteq> []"
  "truthy int_runtime (field report_request ''calculationData'')"
  "emailRegex_test (trim ''a@b.com'')" "trim ''a@b.com'' = ''a@b.com''"
  by (simp_all add: example_defs string_defs)


lemma send_report_delivered:
  assumes "rendered rt (server_year env) body = Inr html"
    and "sgMail_send env (report_message addr html (hd senderConfigs)) = None"
  shows "send_report rt cfg env body addr w =
           (True, None, False,
            w\<lparr>outbox := outbox w @ [report_message addr html (hd senderConfigs)]\<rparr>)"
  using assms by (simp add: send_report_def senderConfigs_def)

lemma inflation_email_bodies:
  "(\<forall>msg \<in> set (drop (length (outbox w))
                   (outbox (snd (inflation_email_handler rt cfg env body w)))).
      rendered rt (server_year env) body = Inr (msg_html msg)) \<and>
   (\<forall>p \<in> set (drop (length (pendingEmails (db w)))
                 (pendingEmails (db (snd (inflation_email_handler rt cfg env body w))))).
      rendered rt (server_year env) body = Inr (htmlContent p))"
proof (cases "\<exists>s. field body ''email'' = JStr s \<and> s \<noteq> [] \<and>
               truthy rt (field body ''calculationData'') \<and> emailRegex_test (trim s)")
  case False
  then have "snd (inflation_email_handler rt cfg env body w) = w"
    using inflation_email_rejected[of body rt cfg env w] by simp
  then show ?thesis by simp
next
  case True
  then obtain s where s: "field body ''email'' = JStr s" "s \<noteq> []"
    "truthy rt (field body ''calculationData'')" "emailRegex_test (trim s)"
    by blast
  note run = inflation_email_valid[OF s, of cfg env w]
  show ?thesis
  proof (cases "sendgrid_key cfg")
    case False
    with run show ?thesis by simp
  next
    case True
    obtain sent err stored w' where r: "send_report rt cfg env body (trim s) w = (sent, err, stored, w')"
      by (metis prod_cases4)
    with send_report_bodies[where rt = rt and cfg = cfg and env = env and body = body
        and addr = "trim s" and w = w] run True
    show ?thesis by simp
  qed
qed

lemma waitlist_values_name:
  "waitlist_values rt body = Inr (nm, ph, amt, lvl) \<Longrightarrow>
   js_trim ''name'' (field body ''name'') = Inr nm"
  by (cases "js_trim ''name'' (field body ''name'')")
     (auto simp add: waitlist_values_def bind_err_def split: sum.splits if_splits)

lemma deal_lead_bodies:
  "\<forall>msg \<in> set (drop (length (outbox w))
                  (outbox (snd (send_deal_lead_handler rt cfg env id body w)))).
     \<exists>nm. js_trim ''name'' (field body ''name'') = Inr nm \<and>
          msg_html msg = confirmation_html_0 @ nm @ confirmation_html_1"
proof (cases "truthy rt (field body ''name'') \<and> truthy rt (field body ''email'') \<and>
      truthy rt (field body ''investmentAmount'') \<and> truthy rt (field body ''experienceLevel'')")
  case False
  then show ?thesis
    by (auto simp add: send_deal_lead_handler_def send_deal_lead_try_def catch_500_Inr reply_sel)
next
  case valid: True
  show ?thesis
  proof (cases "js_trim ''email'' (field body ''email'')")
    case (Inl e)
    with valid show ?thesis
      by (simp add: send_deal_lead_handler_def send_deal_lead_try_def catch_500_Inl)
  next
    case (Inr addr)
    show ?thesis
    proof (cases "emailRegex_test addr \<and> db_connected cfg")
      case False
      with valid Inr show ?thesis
        by (auto simp add: send_deal_lead_handler_def send_deal_lead_try_def catch_500_Inr reply_sel)
    next
      case ok: True
      show ?thesis
      proof (cases "select_fault env")
        case (Some m)
        with valid Inr ok show ?thesis
          by (simp add: send_deal_lead_handler_def send_deal_lead_try_def catch_500_Inl
              select_waitlist_fault)
      next
        case None
        show ?thesis
        proof (cases "addr \<in> set (map wl_email (dealSourcingWaitlist (db w)))")
          case True
          then have "filter (\<lambda>r. wl_email r = addr) (dealSourcingWaitlist (db w)) \<noteq> []"
            by (auto simp add: filter_empty_conv)
          then obtain x xs where "filter (\<lambda>r. wl_email r = addr) (dealSourcingWaitlist (db w)) = x # xs"
            by (cases "filter (\<lambda>r. wl_email r = addr) (dealSourcingWaitlist (db w))") auto
          with valid Inr ok None True show ?thesis
            by (simp add: send_deal_lead_handler_def send_deal_lead_try_def catch_500_Inr
                select_waitlist_None reply_sel)
        next
          case fresh: False
          then have sel: "select_waitlist None addr (db w) = Inr []"
            by (simp add: select_waitlist_empty)
          show ?thesis
          proof (cases "waitlist_values rt body")
            case (Inl e)
            with valid Inr ok None fresh sel show ?thesis
              by (simp add: send_deal_lead_handler_def send_deal_lead_try_def catch_500_Inl)
          next
            case vals: (Inr v)
            obtain nm ph amt lvl where v: "v = (nm, ph, amt, lvl)" by (cases v) auto
            show ?thesis
            proof (cases "insert_fault env")
              case (Some m)
              with valid Inr ok None fresh sel vals v show ?thesis
                by (simp add: send_deal_lead_handler_def send_deal_lead_try_def catch_500_Inl
                    insert_waitlist_fault)
            next
              case insNone: None
              have "js_trim ''name'' (field body ''name'') = Inr nm"
                using vals v by (simp add: waitlist_values_name)
              with valid Inr ok None fresh sel vals v insNone show ?thesis
                by (simp add: send_deal_lead_handler_def send_deal_lead_try_def catch_500_Inr
                    insert_waitlist_fresh send_confirmation_def confirmation_message_def
                    split: option.splits)
            qed
          qed
        qed
      qed
    qed
  qed
qed

lemma report_request_delivered:
  assumes "sgMail_send env = (\<lambda>m. None)"
  shows "inflation_email_handler int_runtime server env report_request start =
           (reply 200 True ''Inflation email processed successfully''
              (Some \<lparr>emailSent = True, emailStored = False, recipient = ''a@b.com'',
                     timestamp = server_now env, reported_error = None\<rparr>),
            start\<lparr>outbox :=
              [report_message ''a@b.com'' (example_report (server_year env)) (hd senderConfigs)]\<rparr>)"
proof -
  have "send_report int_runtime server env report_request ''a@b.com'' start =
      (True, None, False,
       start\<lparr>outbox := outbox start @
         [report_message ''a@b.com'' (example_report (server_year env)) (hd senderConfigs)]\<rparr>)"
    using assms by (intro send_report_delivered rendered_report_request) simp
  then show ?thesis
    using inflation_email_valid[of report_request "''a@b.com''" int_runtime server env start]
      valid_report_request
    by (simp add: server_def start_def)
qed

lemma report_request_rejected:
  "outbox (snd (inflation_email_handler int_runtime server rejecting report_request start)) =
     map (report_message ''a@b.com'' (example_report 2025)) senderConfigs"
  "map htmlContent
     (pendingEmails (db (snd (inflation_email_handler int_runtime server rejecting report_request
                                start)))) = [example_report 2025]"
proof -
  have r: "rendered int_runtime (server_year rejecting) report_request = Inr (example_report 2025)"
    using rendered_report_request[of 2025] by (simp add: rejecting_def delivering_def)
  have f: "\<forall>c \<in> set senderConfigs.
      sgMail_send rejecting (report_message (trim ''a@b.com'') (example_report 2025) c) \<noteq> None"
    by (simp add: rejecting_def)
  note run = inflation_email_valid[of report_request "''a@b.com''" int_runtime server rejecting
      start] send_report_exhausted[OF r f, of server start] valid_report_request
  show "outbox (snd (inflation_email_handler int_runtime server rejecting report_request start)) =
     map (report_message ''a@b.com'' (example_report 2025)) senderConfigs"
    using run by (simp add: server_def start_def rejecting_def delivering_def)
  show "map htmlContent
     (pendingEmails (db (snd (inflation_email_handler int_runtime server rejecting report_request
                                start)))) = [example_report 2025]"
    using run by (simp add: server_def start_def empty_store_def rejecting_def delivering_def)
qed


lemma js_trim_Inl: "js_trim nm v = Inl e \<Longrightarrow> \<forall>s. v \<noteq> JStr s"
  by (cases v) auto

lemma inflation_email_status:
  "res_status (fst (inflation_email_handler rt cfg env body w)) = 400 \<longleftrightarrow>
     \<not> truthy rt (field body ''email'') \<or> \<not> truthy rt (field body ''calculationData'') \<or>
     (\<exists>s. field body ''email'' = JStr s \<and> \<not> emailRegex_test (trim s))"
proof (cases "truthy rt (field body ''email'') \<and> truthy rt (field body ''calculationData'')")
  case False
  then show ?thesis
    by (auto simp add: inflation_email_handler_def inflation_email_try_def catch_500_Inr reply_sel)
next
  case valid: True
  show ?thesis
  proof (cases "js_trim ''email'' (field body ''email'')")
    case (Inl e)
    with valid js_trim_Inl[OF Inl] show ?thesis
      by (simp add: inflation_email_handler_def inflation_email_try_def catch_500_Inl)
  next
    case (Inr addr)
    then obtain s where s: "field body ''email'' = JStr s" "addr = trim s"
      using valid js_trim_truthy[of rt "field body ''email''" "''email''" addr] by blast
    show ?thesis
    proof (cases "emailRegex_test addr")
      case False
      with valid Inr s show ?thesis
        by (simp add: inflation_email_handler_def inflation_email_try_def catch_500_Inr reply_sel)
    next
      case True
      with valid Inr s show ?thesis
        by (simp add: inflation_email_handler_def inflation_email_try_def catch_500_Inr reply_sel
            split: prod.splits)
    qed
  qed
qed

lemma bind_err_fails: "(\<And>x. \<exists>e. f x = Inl e) \<Longrightarrow> \<exists>e. bind_err r f = Inl e"
  by (cases r) auto

lemma text_percentage_fails:
  assumes "get_prop calculationData ''percentageIncrease'' = JStr p"
  shows "\<exists>e. emailContent rt yr name amount month year chartImage calculationData = Inl e"
  unfolding emailContent_def
  apply (rule bind_err_fails)
  apply (rule bind_err_fails)
  apply (rule bind_err_fails)
  apply (rule bind_err_fails)
  apply (rule bind_err_fails)
  apply (rule bind_err_fails)
  apply (simp add: assms)
  done

lemma missing_fields_render:
  assumes "nullish (get_prop calculationData ''originalValue'')"
    and "nullish (get_prop calculationData ''todayValue'')"
    and "nullish (get_prop calculationData ''lossInValue'')"
    and "nullish (get_prop calculationData ''percentageIncrease'')"
  shows "emailContent rt yr JUndefined JUndefined JUndefined JUndefined JUndefined calculationData =
     Inr (report_html_0 @ ''there'' @
          report_html_1 @ ''undefined'' @
          report_html_2 @ ''undefined'' @
          report_html_3 @ ''undefined'' @
          report_html_4 @ ''undefined'' @
          report_html_5 @ ''undefined'' @
          report_html_6 @ ''undefined'' @
          report_html_7 @
          report_html_8 @ ''undefined'' @
          report_html_9 @ ''undefined'' @
          report_html_10 @ decimal yr @
          report_html_11)"
proof -
  have "opt_toFixed rt (get_prop calculationData ''percentageIncrease'') 2 = Inr None"
    using assms(4) by (cases "get_prop calculationData ''percentageIncrease''") auto
  then show ?thesis
    using assms
    by (simp add: emailContent_def js_or_def opt_toLocaleString_def del: decimal.simps)
qed

section \<open>The claims\<close>



text \<open>
  C2, as the claim states it, fails: a subscription whose lookup finds no row and whose
  insert is rejected by the uniqueness constraint, because a rival request with the same
  address committed in between, is answered with status 500 and \<^verbatim>\<open>success: false\<close>,
  carrying the store's error message and no record.
\<close>

theorem lost_race_counterexample:
  "select_subscriptions (select_fault delivering) ''a@b.com'' (db start) = Inr [] \<and>
   fst (insert_subscription (insert_fault delivering) (db_now delivering) ''a@b.com''
          (rival_subscriber (db start))) =
     Inl (unique_violation ''newsletter_subscriptions_email_key'') \<and>
   res_status (fst (newsletter_handler int_runtime server delivering rival_subscriber
                      subscribe_request start)) = 500 \<and>
   \<not> res_success (fst (newsletter_handler int_runtime server delivering rival_subscriber
                         subscribe_request start)) \<and>
   res_data (fst (newsletter_handler int_runtime server delivering rival_subscriber
                    subscribe_request start)) = None \<and>
   res_error (fst (newsletter_handler int_runtime server delivering rival_subscriber
                     subscribe_request start)) =
     Some (error_message (unique_violation ''newsletter_subscriptions_email_key''))"
  by (simp add: rival_subscriber_def newsletter_handler_def newsletter_try_def catch_500_def
      reply_def select_subscriptions_def insert_subscription_def example_defs string_defs Let_def)

text \<open>
  C2, amended. A request that loses the race between its lookup and its insert does not
  recover: in both handlers the constraint violation reaches the closing \<^verbatim>\<open>catch\<close> and
  is surfaced as a 500 response with \<^verbatim>\<open>success: false\<close> and the store's message. The
  tables are left as the rival request made them; the rejected insert has only drawn a
  number from the sequence.
\<close>

theorem lost_race_is_surfaced:
  "(field body ''email'' = JStr s \<and> trim s \<noteq> [] \<and> emailRegex_test (trim s) \<and>
    db_connected cfg \<and> select_fault env = None \<and> insert_fault env = None \<and>
    trim s \<notin> set (map sub_email (newsletterSubscriptions (db w))) \<and>
    trim s \<in> set (map sub_email (newsletterSubscriptions (others (db w)))) \<longrightarrow>
    newsletter_handler rt cfg env others body w =
      (\<lparr>res_status = 500, res_success = False,
        res_message = ''Failed to subscribe to newsletter'', res_data = None,
        res_error =
          Some (error_message (unique_violation ''newsletter_subscriptions_email_key''))\<rparr>,
       w\<lparr>db := (others (db w))\<lparr>newsletter_seq := Suc (newsletter_seq (others (db w)))\<rparr>\<rparr>)) \<and>
   (truthy rt (field body ''name'') \<and> truthy rt (field body ''investmentAmount'') \<and>
    truthy rt (field body ''experienceLevel'') \<and> waitlist_values rt body = Inr v \<and>
    field body ''email'' = JStr s \<and> trim s \<noteq> [] \<and> emailRegex_test (trim s) \<and>
    db_connected cfg \<and> select_fault env = None \<and> insert_fault env = None \<and>
    trim s \<notin> set (map wl_email (dealSourcingWaitlist (db w))) \<and>
    trim s \<in> set (map wl_email (dealSourcingWaitlist (others (db w)))) \<longrightarrow>
    send_deal_lead_handler rt cfg env others body w =
      (\<lparr>res_status = 500, res_success = False,
        res_message = ''Failed to join deal sourcing waitlist'', res_data = None,
        res_error =
          Some (error_message (unique_violation ''deal_sourcing_waitlist_email_key''))\<rparr>,
       w\<lparr>db := (others (db w))\<lparr>waitlist_seq := Suc (waitlist_seq (others (db w)))\<rparr>\<rparr>))"
proof (intro conjI impI)
  assume "field body ''email'' = JStr s \<and> trim s \<noteq> [] \<and> emailRegex_test (trim s) \<and>
    db_connected cfg \<and> select_fault env = None \<and> insert_fault env = None \<and>
    trim s \<notin> set (map sub_email (newsletterSubscriptions (db w))) \<and>
    trim s \<in> set (map sub_email (newsletterSubscriptions (others (db w))))"
  then show "newsletter_handler rt cfg env others body w =
      (\<lparr>res_status = 500, res_success = False,
        res_message = ''Failed to subscribe to newsletter'', res_data = None,
        res_error =
          Some (error_message (unique_violation ''newsletter_subscriptions_email_key''))\<rparr>,
       w\<lparr>db := (others (db w))\<lparr>newsletter_seq := Suc (newsletter_seq (others (db w)))\<rparr>\<rparr>)"
    by (intro newsletter_lost_race[of body s]) simp_all
next
  assume a: "truthy rt (field body ''name'') \<and> truthy rt (field body ''investmentAmount'') \<and>
    truthy rt (field body ''experienceLevel'') \<and> waitlist_values rt body = Inr v \<and>
    field body ''email'' = JStr s \<and> trim s \<noteq> [] \<and> emailRegex_test (trim s) \<and>
    db_connected cfg \<and> select_fault env = None \<and> insert_fault env = None \<and>
    trim s \<notin> set (map wl_email (dealSourcingWaitlist (db w))) \<and>
    trim s \<in> set (map wl_email (dealSourcingWaitlist (others (db w))))"
  obtain nm ph amt lvl where "v = (nm, ph, amt, lvl)" by (cases v) auto
  with a show "send_deal_lead_handler rt cfg env others body w =
      (\<lparr>res_status = 500, res_success = False,
        res_message = ''Failed to join deal sourcing waitlist'', res_data = None,
        res_error =
          Some (error_message (unique_violation ''deal_sourcing_waitlist_email_key''))\<rparr>,
       w\<lparr>db := (others (db w))\<lparr>waitlist_seq := Suc (waitlist_seq (others (db w)))\<rparr>\<rparr>)"
    by (intro deal_lead_lost_race[of rt body s cfg env w nm ph amt lvl]) simp_all
qed


theorem lost_race_is_surfaced_witness:
  "newsletter_handler int_runtime server delivering rival_subscriber subscribe_request start =
      (\<lparr>res_status = 500, res_success = False,
        res_message = ''Failed to subscribe to newsletter'', res_data = None,
        res_error =
          Some (error_message (unique_violation ''newsletter_subscriptions_email_key''))\<rparr>,
       start\<lparr>db := (rival_subscriber (db start))\<lparr>newsletter_seq := 3\<rparr>\<rparr>) \<and>
   send_deal_lead_handler int_runtime server delivering rival_lead lead_request start =
      (\<lparr>res_status = 500, res_success = False,
        res_message = ''Failed to join deal sourcing waitlist'', res_data = None,
        res_error =
          Some (error_message (unique_violation ''deal_sourcing_waitlist_email_key''))\<rparr>,
       start\<lparr>db := (rival_lead (db start))\<lparr>waitlist_seq := 3\<rparr>\<rparr>)"
proof -
  have v: "waitlist_values int_runtime lead_request = Inr (''Ada'', None, ''50000'', ''beginner'')"
    by (simp add: waitlist_values_def bind_err_def example_defs string_defs)
  have n: "field subscribe_request ''email'' = JStr ''a@b.com'' \<and> trim ''a@b.com'' \<noteq> [] \<and>
      emailRegex_test (trim ''a@b.com'') \<and> db_connected server \<and>
      select_fault delivering = None \<and> insert_fault delivering = None \<and>
      trim ''a@b.com'' \<notin> set (map sub_email (newsletterSubscriptions (db start))) \<and>
      trim ''a@b.com'' \<in> set (map sub_email (newsletterSubscriptions (rival_subscriber (db start))))"
    by (simp add: rival_subscriber_start) (simp add: example_defs string_defs)
  have d: "truthy int_runtime (field lead_request ''name'') \<and>
      truthy int_runtime (field lead_request ''investmentAmount'') \<and>
      truthy int_runtime (field lead_request ''experienceLevel'') \<and>
      waitlist_values int_runtime lead_request = Inr (''Ada'', None, ''50000'', ''beginner'') \<and>
      field lead_request ''email'' = JStr '' a@b.com '' \<and> trim '' a@b.com '' \<noteq> [] \<and>
      emailRegex_test (trim '' a@b.com '') \<and> db_connected server \<and>
      select_fault delivering = None \<and> insert_fault delivering = None \<and>
      trim '' a@b.com '' \<notin> set (map wl_email (dealSourcingWaitlist (db start))) \<and>
      trim '' a@b.com '' \<in> set (map wl_email (dealSourcingWaitlist (rival_lead (db start))))"
    by (simp add: rival_lead_start v) (simp add: example_defs string_defs)
  have q: "Suc (newsletter_seq (rival_subscriber (db start))) = 3"
    "Suc (waitlist_seq (rival_lead (db start))) = 3"
    by (simp_all add: rival_subscriber_start rival_lead_start empty_store_def)
  from lost_race_is_surfaced[of subscribe_request "''a@b.com''" server delivering start
      rival_subscriber int_runtime, THEN conjunct1, THEN mp, OF n]
    lost_race_is_surfaced[of lead_request "'' a@b.com ''" server delivering start
      rival_lead int_runtime "(''Ada'', None, ''50000'', ''beginner'')", THEN conjunct2,
      THEN mp, OF d]
  show ?thesis unfolding q by (rule conjI)
qed

text \<open>
  C3. For an address \<open>k\<close> that the store does not hold yet, two requests in sequence with
  that address (each may surround it with white space, and the second may carry any other
  payload that passes validation): the first creates the record (status 201), the second
  finds it (status 200) and returns the very same record, so the same identifier, and
  leaves store and outbox unchanged. This holds for the newsletter and for the deal lead
  waitlist.
\<close>

theorem ingest_twice_first_submission_wins:
  "(field body1 ''email'' = JStr s1 \<and> field body2 ''email'' = JStr s2 \<and>
    trim s1 = k \<and> trim s2 = k \<and> k \<noteq> [] \<and> emailRegex_test k \<and> db_connected cfg \<and>
    select_fault env1 = None \<and> insert_fault env1 = None \<and> select_fault env2 = None \<and>
    k \<notin> set (map sub_email (newsletterSubscriptions (db w))) \<longrightarrow>
    (\<exists>row w1.
       newsletter_handler rt cfg env1 id body1 w =
         (reply 201 True ''Successfully subscribed to newsletter'' (Some row), w1) \<and>
       newsletter_handler rt cfg env2 id body2 w1 =
         (reply 200 True ''Email already subscribed to newsletter'' (Some row), w1) \<and>
       row = \<lparr>sub_id = newsletter_seq (db w), sub_email = k, sub_createdAt = db_now env1\<rparr> \<and>
       newsletterSubscriptions (db w1) = newsletterSubscriptions (db w) @ [row])) \<and>
   (truthy rt (field body1 ''name'') \<and> truthy rt (field body1 ''investmentAmount'') \<and>
    truthy rt (field body1 ''experienceLevel'') \<and>
    waitlist_values rt body1 = Inr (nm, ph, amt, lvl) \<and>
    truthy rt (field body2 ''name'') \<and> truthy rt (field body2 ''investmentAmount'') \<and>
    truthy rt (field body2 ''experienceLevel'') \<and>
    field body1 ''email'' = JStr s1 \<and> field body2 ''email'' = JStr s2 \<and>
    trim s1 = k \<and> trim s2 = k \<and> k \<noteq> [] \<and> emailRegex_test k \<and> db_connected cfg \<and>
    select_fault env1 = None \<and> insert_fault env1 = None \<and> select_fault env2 = None \<and>
    k \<notin> set (map wl_email (dealSourcingWaitlist (db w))) \<longrightarrow>
    (\<exists>row sent w1.
       send_deal_lead_handler rt cfg env1 id body1 w =
         (reply 201 True ''Successfully added to deal sourcing waitlist''
            (Some (waitlist_data_of row (Some sent))), w1) \<and>
       send_deal_lead_handler rt cfg env2 id body2 w1 =
         (reply 200 True ''Email already on deal sourcing waitlist''
            (Some (waitlist_data_of row None)), w1) \<and>
       row = \<lparr>wl_id = waitlist_seq (db w), wl_name = nm, wl_email = k, wl_phone = ph,
               wl_investmentAmount = amt, wl_experienceLevel = lvl,
               wl_createdAt = db_now env1\<rparr> \<and>
       dealSourcingWaitlist (db w1) = dealSourcingWaitlist (db w) @ [row]))"
proof (intro conjI impI)
  assume a: "field body1 ''email'' = JStr s1 \<and> field body2 ''email'' = JStr s2 \<and>
    trim s1 = k \<and> trim s2 = k \<and> k \<noteq> [] \<and> emailRegex_test k \<and> db_connected cfg \<and>
    select_fault env1 = None \<and> insert_fault env1 = None \<and> select_fault env2 = None \<and>
    k \<notin> set (map sub_email (newsletterSubscriptions (db w)))"
  let ?row = "\<lparr>sub_id = newsletter_seq (db w), sub_email = k, sub_createdAt = db_now env1\<rparr>"
  let ?w1 = "w\<lparr>db := (db w)\<lparr>newsletterSubscriptions := newsletterSubscriptions (db w) @ [?row],
                              newsletter_seq := Suc (newsletter_seq (db w))\<rparr>\<rparr>"
  have 1: "newsletter_handler rt cfg env1 id body1 w =
         (reply 201 True ''Successfully subscribed to newsletter'' (Some ?row), ?w1)"
    using a newsletter_twice(1)[of body1 s1 body2 s2 k cfg env1 env2 w rt] by simp
  have 2: "newsletter_handler rt cfg env2 id body2 ?w1 =
         (reply 200 True ''Email already subscribed to newsletter'' (Some ?row), ?w1)"
    using a newsletter_twice(2)[of body1 s1 body2 s2 k cfg env1 env2 w rt] by simp
  have 3: "newsletterSubscriptions (db ?w1) = newsletterSubscriptions (db w) @ [?row]"
    by simp
  show "\<exists>row w1.
       newsletter_handler rt cfg env1 id body1 w =
         (reply 201 True ''Successfully subscribed to newsletter'' (Some row), w1) \<and>
       newsletter_handler rt cfg env2 id body2 w1 =
         (reply 200 True ''Email already subscribed to newsletter'' (Some row), w1) \<and>
       row = \<lparr>sub_id = newsletter_seq (db w), sub_email = k, sub_createdAt = db_now env1\<rparr> \<and>
       newsletterSubscriptions (db w1) = newsletterSubscriptions (db w) @ [row]"
    using 1 2 3 by blast
next
  assume a: "truthy rt (field body1 ''name'') \<and> truthy rt (field body1 ''investmentAmount'') \<and>
    truthy rt (field body1 ''experienceLevel'') \<and>
    waitlist_values rt body1 = Inr (nm, ph, amt, lvl) \<and>
    truthy rt (field body2 ''name'') \<and> truthy rt (field body2 ''investmentAmount'') \<and>
    truthy rt (field body2 ''experienceLevel'') \<and>
    field body1 ''email'' = JStr s1 \<and> field body2 ''email'' = JStr s2 \<and>
    trim s1 = k \<and> trim s2 = k \<and> k \<noteq> [] \<and> emailRegex_test k \<and> db_connected cfg \<and>
    select_fault env1 = None \<and> insert_fault env1 = None \<and> select_fault env2 = None \<and>
    k \<notin> set (map wl_email (dealSourcingWaitlist (db w)))"
  let ?row = "\<lparr>wl_id = waitlist_seq (db w), wl_name = nm, wl_email = k, wl_phone = ph,
               wl_investmentAmount = amt, wl_experienceLevel = lvl,
               wl_createdAt = db_now env1\<rparr>"
  let ?w1 = "w\<lparr>db := (db w)\<lparr>dealSourcingWaitlist := dealSourcingWaitlist (db w) @ [?row],
                              waitlist_seq := Suc (waitlist_seq (db w))\<rparr>,
               outbox := snd (send_confirmation cfg env1 k nm (outbox w))\<rparr>"
  have 1: "send_deal_lead_handler rt cfg env1 id body1 w =
         (reply 201 True ''Successfully added to deal sourcing waitlist''
            (Some (waitlist_data_of ?row
               (Some (fst (send_confirmation cfg env1 k nm (outbox w)))))), ?w1)"
    using a deal_lead_twice(1)[of rt body1 s1 nm ph amt lvl body2 s2 k cfg env1 env2 w]
    by simp
  have 2: "send_deal_lead_handler rt cfg env2 id body2 ?w1 =
         (reply 200 True ''Email already on deal sourcing waitlist''
            (Some (waitlist_data_of ?row None)), ?w1)"
    using a deal_lead_twice(2)[of rt body1 s1 nm ph amt lvl body2 s2 k cfg env1 env2 w]
    by simp
  have 3: "dealSourcingWaitlist (db ?w1) = dealSourcingWaitlist (db w) @ [?row]"
    by simp
  show "\<exists>row sent w1.
       send_deal_lead_handler rt cfg env1 id body1 w =
         (reply 201 True ''Successfully added to deal sourcing waitlist''
            (Some (waitlist_data_of row (Some sent))), w1) \<and>
       send_deal_lead_handler rt cfg env2 id body2 w1 =
         (reply 200 True ''Email already on deal sourcing waitlist''
            (Some (waitlist_data_of row None)), w1) \<and>
       row = \<lparr>wl_id = waitlist_seq (db w), wl_name = nm, wl_email = k, wl_phone = ph,
               wl_investmentAmount = amt, wl_experienceLevel = lvl,
               wl_createdAt = db_now env1\<rparr> \<and>
       dealSourcingWaitlist (db w1) = dealSourcingWaitlist (db w) @ [row]"
    using 1 2 3 by blast
qed

theorem ingest_twice_first_submission_wins_witness:
  "(\<exists>row w1.
       newsletter_handler int_runtime server delivering id subscribe_request start =
         (reply 201 True ''Successfully subscribed to newsletter'' (Some row), w1) \<and>
       newsletter_handler int_runtime server rejecting id [(''email'', JStr ''a@b.com  '')] w1 =
         (reply 200 True ''Email already subscribed to newsletter'' (Some row), w1) \<and>
       row = \<lparr>sub_id = 1, sub_email = ''a@b.com'', sub_createdAt = 1000\<rparr> \<and>
       newsletterSubscriptions (db w1) = [row]) \<and>
   (\<exists>row sent w1.
       send_deal_lead_handler int_runtime server delivering id lead_request start =
         (reply 201 True ''Successfully added to deal sourcing waitlist''
            (Some (waitlist_data_of row (Some sent))), w1) \<and>
       send_deal_lead_handler int_runtime server rejecting id
           [(''name'', JStr ''Grace''), (''email'', JStr ''a@b.com''),
            (''investmentAmount'', JNum 7), (''experienceLevel'', JBool True)] w1 =
         (reply 200 True ''Email already on deal sourcing waitlist''
            (Some (waitlist_data_of row None)), w1) \<and>
       row = \<lparr>wl_id = 1, wl_name = ''Ada'', wl_email = ''a@b.com'', wl_phone = None,
               wl_investmentAmount = ''50000'', wl_experienceLevel = ''beginner'',
               wl_createdAt = 1000\<rparr> \<and>
       dealSourcingWaitlist (db w1) = [row])"
proof -
  have n: "field subscribe_request ''email'' = JStr ''a@b.com'' \<and>
    field [(''email'', JStr ''a@b.com  '')] ''email'' = (JStr ''a@b.com  '' :: int jsval) \<and>
    trim ''a@b.com'' = ''a@b.com'' \<and> trim ''a@b.com  '' = ''a@b.com'' \<and> ''a@b.com'' \<noteq> [] \<and>
    emailRegex_test ''a@b.com'' \<and> db_connected server \<and>
    select_fault delivering = None \<and> insert_fault delivering = None \<and>
    select_fault rejecting = None \<and>
    ''a@b.com'' \<notin> set (map sub_email (newsletterSubscriptions (db start)))"
    by (simp add: example_defs string_defs)
  have d: "truthy int_runtime (field lead_request ''name'') \<and>
    truthy int_runtime (field lead_request ''investmentAmount'') \<and>
    truthy int_runtime (field lead_request ''experienceLevel'') \<and>
    waitlist_values int_runtime lead_request = Inr (''Ada'', None, ''50000'', ''beginner'') \<and>
    truthy int_runtime (field [(''name'', JStr ''Grace''), (''email'', JStr ''a@b.com''),
            (''investmentAmount'', JNum 7), (''experienceLevel'', JBool True)] ''name'') \<and>
    truthy int_runtime (field [(''name'', JStr ''Grace''), (''email'', JStr ''a@b.com''),
            (''investmentAmount'', JNum 7), (''experienceLevel'', JBool True)] ''investmentAmount'') \<and>
    truthy int_runtime (field [(''name'', JStr ''Grace''), (''email'', JStr ''a@b.com''),
            (''investmentAmount'', JNum 7), (''experienceLevel'', JBool True)] ''experienceLevel'') \<and>
    field lead_request ''email'' = JStr '' a@b.com '' \<and>
    field [(''name'', JStr ''Grace''), (''email'', JStr ''a@b.com''),
            (''investmentAmount'', JNum 7), (''experienceLevel'', JBool True)] ''email'' =
      (JStr ''a@b.com'' :: int jsval) \<and>
    trim '' a@b.com '' = ''a@b.com'' \<and> trim ''a@b.com'' = ''a@b.com'' \<and> ''a@b.com'' \<noteq> [] \<and>
    emailRegex_test ''a@b.com'' \<and> db_connected server \<and>
    select_fault delivering = None \<and> insert_fault delivering = None \<and>
    select_fault rejecting = None \<and>
    ''a@b.com'' \<notin> set (map wl_email (dealSourcingWaitlist (db start)))"
    by (simp add: waitlist_values_def bind_err_def int_runtime_def example_defs string_defs)
  have e: "newsletter_seq (db start) = 1" "db_now delivering = 1000"
    "newsletterSubscriptions (db start) = []" "waitlist_seq (db start) = 1"
    "dealSourcingWaitlist (db start) = []"
    by (simp_all add: example_defs)
  from ingest_twice_first_submission_wins[of subscribe_request "''a@b.com''"
      "[(''email'', JStr ''a@b.com  '')]" "''a@b.com  ''" "''a@b.com''" server delivering rejecting
      start int_runtime]
    n
  have 1: "\<exists>row w1.
       newsletter_handler int_runtime server delivering id subscribe_request start =
         (reply 201 True ''Successfully subscribed to newsletter'' (Some row), w1) \<and>
       newsletter_handler int_runtime server rejecting id [(''email'', JStr ''a@b.com  '')] w1 =
         (reply 200 True ''Email already subscribed to newsletter'' (Some row), w1) \<and>
       row = \<lparr>sub_id = 1, sub_email = ''a@b.com'', sub_createdAt = 1000\<rparr> \<and>
       newsletterSubscriptions (db w1) = [row]"
    by (simp only: e append_Nil) blast
  from ingest_twice_first_submission_wins[of lead_request "'' a@b.com ''"
      "[(''name'', JStr ''Grace''), (''email'', JStr ''a@b.com''),
            (''investmentAmount'', JNum 7), (''experienceLevel'', JBool True)]" "''a@b.com''"
      "''a@b.com''" server delivering rejecting start int_runtime
      "''Ada''" None "''50000''" "''beginner''"]
    d
  have 2: "\<exists>row sent w1.
       send_deal_lead_handler int_runtime server delivering id lead_request start =
         (reply 201 True ''Successfully added to deal sourcing waitlist''
            (Some (waitlist_data_of row (Some sent))), w1) \<and>
       send_deal_lead_handler int_runtime server rejecting id
           [(''name'', JStr ''Grace''), (''email'', JStr ''a@b.com''),
            (''investmentAmount'', JNum 7), (''experienceLevel'', JBool True)] w1 =
         (reply 200 True ''Email already on deal sourcing waitlist''
            (Some (waitlist_data_of row None)), w1) \<and>
       row = \<lparr>wl_id = 1, wl_name = ''Ada'', wl_email = ''a@b.com'', wl_phone = None,
               wl_investmentAmount = ''50000'', wl_experienceLevel = ''beginner'',
               wl_createdAt = 1000\<rparr> \<and>
       dealSourcingWaitlist (db w1) = [row]"
    by (simp only: e append_Nil) blast
  from 1 2 show ?thesis by (rule conjI)
qed

text \<open>
  C4. The sender loop calls the transport for the senders in list order. If the sender at
  position \<open>i\<close> is the first one the transport accepts, the loop ends with
  \<^verbatim>\<open>emailSent = true\<close> after exactly \<open>i + 1\<close> calls, those for the first \<open>i + 1\<close> senders, and
  no later sender is tried. A failure of any kind (the loop never looks at the error)
  moves on to the next sender. If every sender fails, all of them have been called, in
  order, \<^verbatim>\<open>emailSent\<close> is false and \<^verbatim>\<open>emailError\<close> is the error of the last sender.
\<close>

theorem deliver_stops_at_first_success:
  "(i < length cs \<longrightarrow> (\<forall>j<i. send (mk (cs ! j)) \<noteq> None) \<longrightarrow> send (mk (cs ! i)) = None \<longrightarrow>
      try_senders send mk cs (False, None, out) =
        (True, (if i = 0 then None else send (mk (cs ! (i - 1)))), out @ map mk (take (Suc i) cs)) \<and>
      length (take (Suc i) cs) = Suc i) \<and>
   ((\<forall>c \<in> set cs. send (mk c) \<noteq> None) \<longrightarrow>
      try_senders send mk cs (False, None, out) =
        (False, (if cs = [] then None else send (mk (last cs))), out @ map mk cs))"
proof (intro conjI impI)
  assume i: "i < length cs" and before: "\<forall>j<i. send (mk (cs ! j)) \<noteq> None"
    and at: "send (mk (cs ! i)) = None"
  have tw: "takeWhile (\<lambda>c. send (mk c) \<noteq> None) cs = take i cs"
    using i before at by (intro takeWhile_first_success) auto
  have "last (take i cs) = cs ! (i - 1)" if "i \<noteq> 0"
  proof -
    have "take i cs \<noteq> []" and "length (take i cs) = i" using that i by auto
    then have "last (take i cs) = take i cs ! (i - 1)" by (simp add: last_conv_nth)
    also have "\<dots> = cs ! (i - 1)" using that by simp
    finally show ?thesis .
  qed
  note lst = this
  have len: "length (take i cs) = i" using i by simp
  have "try_senders send mk cs (False, None, out) =
          (False \<or> length (take i cs) < length cs,
           if take i cs = [] then None else send (mk (last (take i cs))),
           out @ map mk (take (Suc (length (take i cs))) cs))"
    by (simp only: try_senders_walk tw Let_def)
  then show "try_senders send mk cs (False, None, out) =
        (True, (if i = 0 then None else send (mk (cs ! (i - 1)))), out @ map mk (take (Suc i) cs))"
    using i lst by (cases "i = 0") (auto simp add: len)
  show "length (take (Suc i) cs) = Suc i" using i by simp
next
  assume "\<forall>c \<in> set cs. send (mk c) \<noteq> None"
  then have tw: "takeWhile (\<lambda>c. send (mk c) \<noteq> None) cs = cs" by simp
  have "try_senders send mk cs (False, None, out) =
          (False \<or> length cs < length cs,
           if cs = [] then None else send (mk (last cs)),
           out @ map mk (take (Suc (length cs)) cs))"
    by (simp only: try_senders_walk tw Let_def)
  then show "try_senders send mk cs (False, None, out) =
        (False, (if cs = [] then None else send (mk (last cs))), out @ map mk cs)"
    by simp
qed

theorem deliver_stops_at_first_success_witness:
  "try_senders (sgMail_send only_hello) (report_message ''a@b.com'' ''<p>150</p>'') senderConfigs
       (False, None, []) =
     (True, Some forbidden, map (report_message ''a@b.com'' ''<p>150</p>'') senderConfigs) \<and>
   length (map (report_message ''a@b.com'' ''<p>150</p>'') senderConfigs) = 3 \<and>
   try_senders (sgMail_send rejecting) (report_message ''a@b.com'' ''<p>150</p>'') senderConfigs
       (False, None, []) =
     (False, Some forbidden, map (report_message ''a@b.com'' ''<p>150</p>'') senderConfigs)"
proof -
  have a: "2 < length senderConfigs"
    and b: "\<forall>j<2. sgMail_send only_hello (report_message ''a@b.com'' ''<p>150</p>'' (senderConfigs ! j)) \<noteq> None"
    and c: "sgMail_send only_hello (report_message ''a@b.com'' ''<p>150</p>'' (senderConfigs ! 2)) = None"
    and d: "\<forall>c \<in> set senderConfigs.
              sgMail_send rejecting (report_message ''a@b.com'' ''<p>150</p>'' c) \<noteq> None"
    by (simp_all add: senderConfigs_def report_message_def example_defs less_Suc_eq numeral_2_eq_2)
  from deliver_stops_at_first_success[of 2 senderConfigs "sgMail_send only_hello"
         "report_message ''a@b.com'' ''<p>150</p>''" "[]"]
    deliver_stops_at_first_success[of 2 senderConfigs "sgMail_send rejecting"
         "report_message ''a@b.com'' ''<p>150</p>''" "[]"]
    a b c d
  show ?thesis
    by (simp add: senderConfigs_def report_message_def example_defs)
qed




text \<open>
  C6. When the report is rendered and every sender of the list fails: if the store is
  connected and accepts the insert, one pending row is appended with \<^verbatim>\<open>status\<close>
  \<^verbatim>\<open>pending\<close>, \<^verbatim>\<open>attempts\<close> 0 and, as error detail, the serialised message, code and response
  of the last sender's error, and the response is a success with \<^verbatim>\<open>emailSent\<close> false and
  \<^verbatim>\<open>emailStored\<close> true; if the store is not connected or rejects the insert, no row is
  written and the response is still a success, with \<^verbatim>\<open>emailStored\<close> false.
\<close>

theorem exhausted_senders_are_queued:
  "field body ''email'' = JStr s \<and> s \<noteq> [] \<and> truthy rt (field body ''calculationData'') \<and>
   emailRegex_test (trim s) \<and> sendgrid_key cfg \<and>
   rendered rt (server_year env) body = Inr html \<and>
   (\<forall>c \<in> set senderConfigs. sgMail_send env (report_message (trim s) html c) \<noteq> None) \<and>
   sgMail_send env (report_message (trim s) html (last senderConfigs)) = Some lastError \<longrightarrow>
   (db_connected cfg \<and> enqueue_fault env = None \<longrightarrow>
    inflation_email_handler rt cfg env body w =
      (reply 200 True ''Inflation email processed successfully''
         (Some \<lparr>emailSent = False, emailStored = True, recipient = trim s,
                timestamp = server_now env,
                reported_error = Some (err_message lastError, err_code lastError)\<rparr>),
       w\<lparr>outbox := outbox w @ map (report_message (trim s) html) senderConfigs,
         db := (db w)\<lparr>pendingEmails := pendingEmails (db w) @
           [\<lparr>pe_id = pending_seq (db w), recipientEmail = trim s,
             recipientName = Some (text_param rt (js_or rt (field body ''name'') (JStr ''User''))),
             subject = report_subject, htmlContent = html, emailType = ''inflation_report'',
             status = ''pending'',
             errorDetails =
               Some (JSON_stringify rt
                       (JObj [(''message'', JStr (err_message lastError)),
                              (''code'', err_code lastError),
                              (''response'', err_response_body lastError)])),
             attempts = Some 0, pe_createdAt = db_now env, sentAt = None\<rparr>],
           pending_seq := Suc (pending_seq (db w))\<rparr>\<rparr>)) \<and>
   (\<not> db_connected cfg \<or> enqueue_fault env \<noteq> None \<longrightarrow>
    inflation_email_handler rt cfg env body w =
      (reply 200 True ''Inflation email processed successfully''
         (Some \<lparr>emailSent = False, emailStored = False, recipient = trim s,
                timestamp = server_now env,
                reported_error = Some (err_message lastError, err_code lastError)\<rparr>),
       w\<lparr>outbox := outbox w @ map (report_message (trim s) html) senderConfigs\<rparr>))"
proof (intro impI)
  assume a: "field body ''email'' = JStr s \<and> s \<noteq> [] \<and>
   truthy rt (field body ''calculationData'') \<and>
   emailRegex_test (trim s) \<and> sendgrid_key cfg \<and>
   rendered rt (server_year env) body = Inr html \<and>
   (\<forall>c \<in> set senderConfigs. sgMail_send env (report_message (trim s) html c) \<noteq> None) \<and>
   sgMail_send env (report_message (trim s) html (last senderConfigs)) = Some lastError"
  then have r: "rendered rt (server_year env) body = Inr html"
    and f: "\<forall>c \<in> set senderConfigs. sgMail_send env (report_message (trim s) html c) \<noteq> None"
    by simp_all
  note run = inflation_email_valid[of body s rt cfg env w]
    send_report_exhausted[OF r f, of cfg w]
  show "(db_connected cfg \<and> enqueue_fault env = None \<longrightarrow>
    inflation_email_handler rt cfg env body w =
      (reply 200 True ''Inflation email processed successfully''
         (Some \<lparr>emailSent = False, emailStored = True, recipient = trim s,
                timestamp = server_now env,
                reported_error = Some (err_message lastError, err_code lastError)\<rparr>),
       w\<lparr>outbox := outbox w @ map (report_message (trim s) html) senderConfigs,
         db := (db w)\<lparr>pendingEmails := pendingEmails (db w) @
           [\<lparr>pe_id = pending_seq (db w), recipientEmail = trim s,
             recipientName = Some (text_param rt (js_or rt (field body ''name'') (JStr ''User''))),
             subject = report_subject, htmlContent = html, emailType = ''inflation_report'',
             status = ''pending'',
             errorDetails =
               Some (JSON_stringify rt
                       (JObj [(''message'', JStr (err_message lastError)),
                              (''code'', err_code lastError),
                              (''response'', err_response_body lastError)])),
             attempts = Some 0, pe_createdAt = db_now env, sentAt = None\<rparr>],
           pending_seq := Suc (pending_seq (db w))\<rparr>\<rparr>)) \<and>
   (\<not> db_connected cfg \<or> enqueue_fault env \<noteq> None \<longrightarrow>
    inflation_email_handler rt cfg env body w =
      (reply 200 True ''Inflation email processed successfully''
         (Some \<lparr>emailSent = False, emailStored = False, recipient = trim s,
                timestamp = server_now env,
                reported_error = Some (err_message lastError, err_code lastError)\<rparr>),
       w\<lparr>outbox := outbox w @ map (report_message (trim s) html) senderConfigs\<rparr>))"
    using a run by (auto simp add: error_details_def)
qed


theorem exhausted_senders_are_queued_witness:
  "inflation_email_handler int_runtime server rejecting report_request start =
     (reply 200 True ''Inflation email processed successfully''
        (Some \<lparr>emailSent = False, emailStored = True, recipient = ''a@b.com'', timestamp = 1001,
               reported_error = Some (''Forbidden'', JNum 403)\<rparr>),
      start\<lparr>outbox := map (report_message ''a@b.com'' (example_report 2025)) senderConfigs,
        db := empty_store\<lparr>pendingEmails :=
          [\<lparr>pe_id = 1, recipientEmail = ''a@b.com'', recipientName = Some ''User'',
            subject = report_subject, htmlContent = example_report 2025,
            emailType = ''inflation_report'', status = ''pending'',
            errorDetails =
              Some (json (JObj [(''message'', JStr ''Forbidden''), (''code'', JNum 403),
                                (''response'', JUndefined)])),
            attempts = Some 0, pe_createdAt = 1000, sentAt = None\<rparr>],
          pending_seq := 2\<rparr>\<rparr>) \<and>
   inflation_email_handler int_runtime no_store rejecting report_request start =
     (reply 200 True ''Inflation email processed successfully''
        (Some \<lparr>emailSent = False, emailStored = False, recipient = ''a@b.com'', timestamp = 1001,
               reported_error = Some (''Forbidden'', JNum 403)\<rparr>),
      start\<lparr>outbox := map (report_message ''a@b.com'' (example_report 2025)) senderConfigs\<rparr>)"
proof -
  have r: "rendered int_runtime (server_year rejecting) report_request = Inr (example_report 2025)"
    using rendered_report_request[of 2025] by (simp add: rejecting_def delivering_def)
  have h: "field report_request ''email'' = JStr ''a@b.com'' \<and> ''a@b.com'' \<noteq> [] \<and>
      truthy int_runtime (field report_request ''calculationData'') \<and>
      emailRegex_test (trim ''a@b.com'') \<and> sendgrid_key cfg \<and>
      rendered int_runtime (server_year rejecting) report_request = Inr (example_report 2025) \<and>
      (\<forall>c \<in> set senderConfigs.
         sgMail_send rejecting (report_message (trim ''a@b.com'') (example_report 2025) c) \<noteq>
           None) \<and>
      sgMail_send rejecting
        (report_message (trim ''a@b.com'') (example_report 2025) (last senderConfigs)) =
        Some forbidden"
    if "sendgrid_key cfg" for cfg
    using valid_report_request r that by (simp add: rejecting_def)
  have k: "sendgrid_key server" "sendgrid_key no_store" "db_connected server \<and>
      enqueue_fault rejecting = None" "\<not> db_connected no_store \<or> enqueue_fault rejecting \<noteq> None"
    by (simp_all add: server_def no_store_def rejecting_def delivering_def)
  note t1 = exhausted_senders_are_queued[of report_request "''a@b.com''" int_runtime
      server rejecting "example_report 2025" forbidden start, THEN mp, OF h[OF k(1)],
      THEN conjunct1, THEN mp, OF k(3)]
  note t2 = exhausted_senders_are_queued[of report_request "''a@b.com''" int_runtime
      no_store rejecting "example_report 2025" forbidden start, THEN mp, OF h[OF k(2)],
      THEN conjunct2, THEN mp, OF k(4)]
  have e: "trim ''a@b.com'' = ''a@b.com''" "server_now rejecting = 1001"
    "db_now rejecting = 1000" "err_message forbidden = ''Forbidden''"
    "err_code forbidden = JNum 403" "err_response_body forbidden = JUndefined"
    "text_param int_runtime (js_or int_runtime (field report_request ''name'') (JStr ''User'')) =
       ''User''"
    "JSON_stringify int_runtime = json"
    by (simp_all add: example_defs string_defs text_param_def js_or_def int_runtime_def)
  from t1[unfolded e] t2[unfolded e] show ?thesis
    by (simp add: start_def empty_store_def)
qed



text \<open>
  C8, as the claim states it, fails: the template ends with
  \<^verbatim>\<open>${new Date().getFullYear()}\<close>, so one and the same request, handled in 2025 and again
  in 2026, sends two different bodies.
\<close>

theorem report_body_counterexample:
  "map msg_html (outbox (snd (inflation_email_handler int_runtime server delivering
                                report_request start))) = [example_report 2025] \<and>
   map msg_html (outbox (snd (inflation_email_handler int_runtime server a_year_later
                                report_request start))) = [example_report 2026] \<and>
   example_report 2025 \<noteq> example_report 2026"
proof -
  have "sgMail_send delivering = (\<lambda>m. None)" "sgMail_send a_year_later = (\<lambda>m. None)"
    "server_year delivering = 2025" "server_year a_year_later = 2026"
    by (simp_all add: delivering_def a_year_later_def)
  then show ?thesis
    using report_request_delivered[of delivering] report_request_delivered[of a_year_later]
      example_report_years
    by (simp add: report_message_def)
qed

text \<open>
  C8, amended. The body of a notification is a function of the request and of the
  calendar year of the server's clock, and of nothing else. Every message the inflation
  email handler hands to the transport, and every pending row it writes, carries the
  report rendered from the request's fields and that year; so two runs on the same
  request in the same year, whatever their configuration, store, transport and clocks,
  produce identical bodies. The confirmation mail of the deal lead handler does not
  read the clock: two runs on the same request always produce identical bodies.
\<close>

theorem bodies_are_a_function_of_request_and_year:
  "(\<forall>m \<in> set (drop (length (outbox w))
                (outbox (snd (inflation_email_handler rt cfg env body w)))).
      rendered rt (server_year env) body = Inr (msg_html m)) \<and>
   (\<forall>p \<in> set (drop (length (pendingEmails (db w)))
                (pendingEmails (db (snd (inflation_email_handler rt cfg env body w))))).
      rendered rt (server_year env) body = Inr (htmlContent p)) \<and>
   (server_year env = server_year env' \<longrightarrow>
      (\<forall>m \<in> set (drop (length (outbox w))
                   (outbox (snd (inflation_email_handler rt cfg env body w)))).
         (\<forall>m' \<in> set (drop (length (outbox w'))
                       (outbox (snd (inflation_email_handler rt cfg' env' body w')))).
            msg_html m = msg_html m') \<and>
         (\<forall>p' \<in> set (drop (length (pendingEmails (db w')))
                       (pendingEmails (db (snd (inflation_email_handler rt cfg' env' body
                                                  w'))))).
            msg_html m = htmlContent p'))) \<and>
   (\<forall>m \<in> set (drop (length (outbox w))
                (outbox (snd (send_deal_lead_handler rt cfg env id body w)))).
      \<forall>m' \<in> set (drop (length (outbox w'))
                   (outbox (snd (send_deal_lead_handler rt cfg' env' id body w')))).
        msg_html m = msg_html m')"
proof (intro conjI impI ballI)
  note a = inflation_email_bodies[of w rt cfg env body]
  note b = inflation_email_bodies[of w' rt cfg' env' body]
  fix m assume m: "m \<in> set (drop (length (outbox w))
                (outbox (snd (inflation_email_handler rt cfg env body w))))"
  with a show "rendered rt (server_year env) body = Inr (msg_html m)" by blast
  {
    assume y: "server_year env = server_year env'"
    {
      fix m' assume "m' \<in> set (drop (length (outbox w'))
                       (outbox (snd (inflation_email_handler rt cfg' env' body w'))))"
      with a b m y show "msg_html m = msg_html m'" by (metis sum.inject(2))
    }
    {
      fix p' assume "p' \<in> set (drop (length (pendingEmails (db w')))
                       (pendingEmails (db (snd (inflation_email_handler rt cfg' env' body
                                                  w')))))"
      with a b m y show "msg_html m = htmlContent p'" by (metis sum.inject(2))
    }
  }
next
  fix p assume "p \<in> set (drop (length (pendingEmails (db w)))
                (pendingEmails (db (snd (inflation_email_handler rt cfg env body w)))))"
  with inflation_email_bodies[of w rt cfg env body]
  show "rendered rt (server_year env) body = Inr (htmlContent p)" by blast
next
  fix m m'
  assume "m \<in> set (drop (length (outbox w))
                (outbox (snd (send_deal_lead_handler rt cfg env id body w))))"
    and "m' \<in> set (drop (length (outbox w'))
                   (outbox (snd (send_deal_lead_handler rt cfg' env' id body w'))))"
  with deal_lead_bodies[of w rt cfg env body] deal_lead_bodies[of w' rt cfg' env' body]
  show "msg_html m = msg_html m'" by (metis sum.inject(2))
qed

theorem bodies_are_a_function_of_request_and_year_witness:
  "server_year delivering = server_year rejecting \<and>
   outbox (snd (inflation_email_handler int_runtime server delivering report_request start)) \<noteq> [] \<and>
   length (outbox (snd (inflation_email_handler int_runtime server rejecting report_request
                          start))) = 3 \<and>
   length (pendingEmails (db (snd (inflation_email_handler int_runtime server rejecting
                                     report_request start)))) = 1 \<and>
   msg_html (hd (outbox (snd (inflation_email_handler int_runtime server delivering
                                report_request start)))) =
     msg_html (last (outbox (snd (inflation_email_handler int_runtime server rejecting
                                    report_request start)))) \<and>
   msg_html (hd (outbox (snd (inflation_email_handler int_runtime server delivering
                                report_request start)))) =
     htmlContent (hd (pendingEmails (db (snd (inflation_email_handler int_runtime server rejecting
                                               report_request start)))))"
proof -
  let ?run1 = "inflation_email_handler int_runtime server delivering report_request start"
  let ?run2 = "inflation_email_handler int_runtime server rejecting report_request start"
  have y: "server_year delivering = server_year rejecting"
    by (simp add: rejecting_def)
  have o1: "outbox (snd ?run1) =
      [report_message ''a@b.com'' (example_report (server_year delivering)) (hd senderConfigs)]"
    using report_request_delivered[of delivering] by (simp add: delivering_def)
  have o2: "length (outbox (snd ?run2)) = 3"
    using report_request_rejected(1) by (simp add: senderConfigs_def)
  have p2: "length (pendingEmails (db (snd ?run2))) = 1"
    using report_request_rejected(2) by (metis length_map length_Cons list.size(3) One_nat_def)
  have s: "outbox start = []" "pendingEmails (db start) = []"
    by (simp_all add: start_def empty_store_def)
  have m1: "hd (outbox (snd ?run1)) \<in> set (drop (length (outbox start)) (outbox (snd ?run1)))"
    using o1 s by simp
  have m2: "last (outbox (snd ?run2)) \<in> set (drop (length (outbox start)) (outbox (snd ?run2)))"
    using o2 s by (cases "outbox (snd ?run2)") auto
  have q2: "hd (pendingEmails (db (snd ?run2)))
      \<in> set (drop (length (pendingEmails (db start))) (pendingEmails (db (snd ?run2))))"
    using p2 s by (cases "pendingEmails (db (snd ?run2))") auto
  note t = bodies_are_a_function_of_request_and_year[of start int_runtime server delivering
      report_request rejecting start server, THEN conjunct2, THEN conjunct2, THEN conjunct1,
      THEN mp, OF y, THEN bspec, OF m1]
  from t[THEN conjunct1, THEN bspec, OF m2] t[THEN conjunct2, THEN bspec, OF q2] y o1 o2 p2
  show ?thesis by simp
qed

text \<open>
  C9, as the claim states it, fails: a request whose \<^verbatim>\<open>calculationData\<close> is the empty
  object passes validation, and the report is rendered and sent with the text
  \<^verbatim>\<open>undefined\<close> in place of every missing value.
\<close>

theorem incomplete_data_counterexample:
  "inflation_email_handler int_runtime server delivering incomplete_request start =
     (reply 200 True ''Inflation email processed successfully''
        (Some \<lparr>emailSent = True, emailStored = False, recipient = ''a@b.com'',
               timestamp = 1001, reported_error = None\<rparr>),
      start\<lparr>outbox :=
        [report_message ''a@b.com''
           (report_html_0 @ ''there'' @
          report_html_1 @ ''undefined'' @
          report_html_2 @ ''undefined'' @
          report_html_3 @ ''undefined'' @
          report_html_4 @ ''undefined'' @
          report_html_5 @ ''undefined'' @
          report_html_6 @ ''undefined'' @
          report_html_7 @
          report_html_8 @ ''undefined'' @
          report_html_9 @ ''undefined'' @
          report_html_10 @ ''2025'' @
          report_html_11)
           (hd senderConfigs)]\<rparr>)"
proof -
  have r: "rendered int_runtime (server_year delivering) incomplete_request =
      Inr (report_html_0 @ ''there'' @
          report_html_1 @ ''undefined'' @
          report_html_2 @ ''undefined'' @
          report_html_3 @ ''undefined'' @
          report_html_4 @ ''undefined'' @
          report_html_5 @ ''undefined'' @
          report_html_6 @ ''undefined'' @
          report_html_7 @
          report_html_8 @ ''undefined'' @
          report_html_9 @ ''undefined'' @
          report_html_10 @ decimal (server_year delivering) @
          report_html_11)"
    using rendered_incomplete_request[of int_runtime "server_year delivering"]
    by (simp add: incomplete_request_def)
  have v: "field incomplete_request ''email'' = JStr ''a@b.com''" "''a@b.com'' \<noteq> []"
    "truthy int_runtime (field incomplete_request ''calculationData'')"
    "emailRegex_test (trim ''a@b.com'')" "trim ''a@b.com'' = ''a@b.com''"
    by (simp_all add: example_defs string_defs)
  have "send_report int_runtime server delivering incomplete_request ''a@b.com'' start =
      (True, None, False,
       start\<lparr>outbox := outbox start @
         [report_message ''a@b.com''
            (report_html_0 @ ''there'' @
          report_html_1 @ ''undefined'' @
          report_html_2 @ ''undefined'' @
          report_html_3 @ ''undefined'' @
          report_html_4 @ ''undefined'' @
          report_html_5 @ ''undefined'' @
          report_html_6 @ ''undefined'' @
          report_html_7 @
          report_html_8 @ ''undefined'' @
          report_html_9 @ ''undefined'' @
          report_html_10 @ decimal (server_year delivering) @
          report_html_11)
            (hd senderConfigs)]\<rparr>)"
    using r by (intro send_report_delivered) (simp_all add: delivering_def)
  then show ?thesis
    using inflation_email_valid[of incomplete_request "''a@b.com''" int_runtime server delivering
        start] v
    by (simp add: server_def start_def delivering_def)
qed

text \<open>
  C9, amended. Validation looks at the presence of \<^verbatim>\<open>email\<close> and \<^verbatim>\<open>calculationData\<close> and at
  the form of the address only: the response is 400 exactly when \<^verbatim>\<open>email\<close> or
  \<^verbatim>\<open>calculationData\<close> is falsy or the trimmed address fails the pattern. The template
  checks no field: with the values of \<^verbatim>\<open>calculationData\<close> missing it renders, writing
  \<^verbatim>\<open>undefined\<close> for each. Rendering can only fail with a \<^verbatim>\<open>TypeError\<close>, as it does when
  \<^verbatim>\<open>percentageIncrease\<close> is a string; the handler catches it and answers with a success,
  \<^verbatim>\<open>emailSent\<close> and \<^verbatim>\<open>emailStored\<close> false, sending and storing nothing.
\<close>

theorem compose_validates_presence_only:
  "(res_status (fst (inflation_email_handler rt cfg env body w)) = 400 \<longleftrightarrow>
      \<not> truthy rt (field body ''email'') \<or> \<not> truthy rt (field body ''calculationData'') \<or>
      (\<exists>s. field body ''email'' = JStr s \<and> \<not> emailRegex_test (trim s))) \<and>
   (nullish (get_prop calculationData ''originalValue'') \<and>
    nullish (get_prop calculationData ''todayValue'') \<and>
    nullish (get_prop calculationData ''lossInValue'') \<and>
    nullish (get_prop calculationData ''percentageIncrease'') \<longrightarrow>
    emailContent rt yr JUndefined JUndefined JUndefined JUndefined JUndefined calculationData =
      Inr (report_html_0 @ ''there'' @
          report_html_1 @ ''undefined'' @
          report_html_2 @ ''undefined'' @
          report_html_3 @ ''undefined'' @
          report_html_4 @ ''undefined'' @
          report_html_5 @ ''undefined'' @
          report_html_6 @ ''undefined'' @
          report_html_7 @
          report_html_8 @ ''undefined'' @
          report_html_9 @ ''undefined'' @
          report_html_10 @ decimal yr @
          report_html_11)) \<and>
   (emailContent rt yr name amount month year chartImage calculationData = Inl e \<longrightarrow>
      (\<exists>m. e = TypeError m)) \<and>
   (get_prop calculationData ''percentageIncrease'' = JStr p \<longrightarrow>
      (\<exists>e. emailContent rt yr name amount month year chartImage calculationData = Inl e)) \<and>
   (field body ''email'' = JStr s \<and> s \<noteq> [] \<and> truthy rt (field body ''calculationData'') \<and>
    emailRegex_test (trim s) \<and> sendgrid_key cfg \<and>
    rendered rt (server_year env) body = Inl e \<longrightarrow>
    inflation_email_handler rt cfg env body w =
      (reply 200 True ''Inflation email processed successfully''
         (Some \<lparr>emailSent = False, emailStored = False, recipient = trim s,
                timestamp = server_now env, reported_error = None\<rparr>),
       w))"
proof (intro conjI impI)
  show "res_status (fst (inflation_email_handler rt cfg env body w)) = 400 \<longleftrightarrow>
      \<not> truthy rt (field body ''email'') \<or> \<not> truthy rt (field body ''calculationData'') \<or>
      (\<exists>s. field body ''email'' = JStr s \<and> \<not> emailRegex_test (trim s))"
    by (rule inflation_email_status)
next
  assume "nullish (get_prop calculationData ''originalValue'') \<and>
    nullish (get_prop calculationData ''todayValue'') \<and>
    nullish (get_prop calculationData ''lossInValue'') \<and>
    nullish (get_prop calculationData ''percentageIncrease'')"
  then show "emailContent rt yr JUndefined JUndefined JUndefined JUndefined JUndefined
      calculationData = Inr (report_html_0 @ ''there'' @
          report_html_1 @ ''undefined'' @
          report_html_2 @ ''undefined'' @
          report_html_3 @ ''undefined'' @
          report_html_4 @ ''undefined'' @
          report_html_5 @ ''undefined'' @
          report_html_6 @ ''undefined'' @
          report_html_7 @
          report_html_8 @ ''undefined'' @
          report_html_9 @ ''undefined'' @
          report_html_10 @ decimal yr @
          report_html_11)"
    by (intro missing_fields_render) simp_all
next
  assume "emailContent rt yr name amount month year chartImage calculationData = Inl e"
  then show "\<exists>m. e = TypeError m" by (rule emailContent_error)
next
  assume "get_prop calculationData ''percentageIncrease'' = JStr p"
  then show "\<exists>e. emailContent rt yr name amount month year chartImage calculationData = Inl e"
    by (rule text_percentage_fails)
next
  assume a: "field body ''email'' = JStr s \<and> s \<noteq> [] \<and>
    truthy rt (field body ''calculationData'') \<and>
    emailRegex_test (trim s) \<and> sendgrid_key cfg \<and>
    rendered rt (server_year env) body = Inl e"
  then show "inflation_email_handler rt cfg env body w =
      (reply 200 True ''Inflation email processed successfully''
         (Some \<lparr>emailSent = False, emailStored = False, recipient = trim s,
                timestamp = server_now env, reported_error = None\<rparr>),
       w)"
    using inflation_email_valid[of body s rt cfg env w]
      send_report_render_failed[of rt env body e cfg "trim s" w]
    by simp
qed

theorem compose_validates_presence_only_witness:
  "res_status (fst (inflation_email_handler int_runtime server delivering
                      [(''calculationData'', JObj [])] start)) = 400 \<and>
   res_status (fst (inflation_email_handler int_runtime server delivering incomplete_request
                      start)) \<noteq> 400 \<and>
   emailContent int_runtime 2025 JUndefined JUndefined JUndefined JUndefined JUndefined
       (JObj []) = Inr (report_html_0 @ ''there'' @
          report_html_1 @ ''undefined'' @
          report_html_2 @ ''undefined'' @
          report_html_3 @ ''undefined'' @
          report_html_4 @ ''undefined'' @
          report_html_5 @ ''undefined'' @
          report_html_6 @ ''undefined'' @
          report_html_7 @
          report_html_8 @ ''undefined'' @
          report_html_9 @ ''undefined'' @
          report_html_10 @ ''2025'' @
          report_html_11) \<and>
   (\<exists>m. rendered int_runtime 2025 text_percentage_request = Inl (TypeError m)) \<and>
   inflation_email_handler int_runtime server delivering text_percentage_request start =
     (reply 200 True ''Inflation email processed successfully''
        (Some \<lparr>emailSent = False, emailStored = False, recipient = ''a@b.com'',
               timestamp = 1001, reported_error = None\<rparr>),
      start)"
proof -
  note t = compose_validates_presence_only
  have 1: "res_status (fst (inflation_email_handler int_runtime server delivering
                      [(''calculationData'', JObj [])] start)) = 400"
    using t[of int_runtime server delivering "[(''calculationData'', JObj [])]" start,
        THEN conjunct1]
    by (simp add: field_def)
  have 2: "res_status (fst (inflation_email_handler int_runtime server delivering
      incomplete_request start)) \<noteq> 400"
    using t[of int_runtime server delivering incomplete_request start, THEN conjunct1]
    by (simp add: example_defs string_defs)
  have n: "nullish (get_prop (JObj [] :: int jsval) ''originalValue'') \<and>
    nullish (get_prop (JObj [] :: int jsval) ''todayValue'') \<and>
    nullish (get_prop (JObj [] :: int jsval) ''lossInValue'') \<and>
    nullish (get_prop (JObj [] :: int jsval) ''percentageIncrease'')"
    by (simp add: field_def)
  have 3: "emailContent int_runtime 2025 JUndefined JUndefined JUndefined JUndefined JUndefined
       (JObj []) = Inr (report_html_0 @ ''there'' @
          report_html_1 @ ''undefined'' @
          report_html_2 @ ''undefined'' @
          report_html_3 @ ''undefined'' @
          report_html_4 @ ''undefined'' @
          report_html_5 @ ''undefined'' @
          report_html_6 @ ''undefined'' @
          report_html_7 @
          report_html_8 @ ''undefined'' @
          report_html_9 @ ''undefined'' @
          report_html_10 @ ''2025'' @
          report_html_11)"
    using t[where calculationData = "JObj []" and rt = int_runtime and yr = 2025,
        THEN conjunct2, THEN conjunct1, THEN mp, OF n]
    by simp
  have g: "get_prop (field text_percentage_request ''calculationData'') ''percentageIncrease'' =
      JStr ''25''"
    by (simp add: text_percentage_request_def field_def)
  obtain e where e: "rendered int_runtime 2025 text_percentage_request = Inl e"
    using t[where calculationData = "field text_percentage_request ''calculationData''"
        and rt = int_runtime and yr = 2025 and p = "''25''", THEN conjunct2, THEN conjunct2,
        THEN conjunct2, THEN conjunct1, THEN mp, OF g]
    by blast
  then obtain m where m: "e = TypeError m"
    using t[where rt = int_runtime and yr = 2025 and e = e, THEN conjunct2, THEN conjunct2,
        THEN conjunct1] by blast
  have h: "field text_percentage_request ''email'' = JStr ''a@b.com'' \<and> ''a@b.com'' \<noteq> [] \<and>
      truthy int_runtime (field text_percentage_request ''calculationData'') \<and>
      emailRegex_test (trim ''a@b.com'') \<and> sendgrid_key server \<and>
      rendered int_runtime (server_year delivering) text_percentage_request = Inl e"
    using e by (simp add: example_defs string_defs)
  have 5: "inflation_email_handler int_runtime server delivering text_percentage_request start =
     (reply 200 True ''Inflation email processed successfully''
        (Some \<lparr>emailSent = False, emailStored = False, recipient = ''a@b.com'',
               timestamp = 1001, reported_error = None\<rparr>),
      start)"
    using t[where body = text_percentage_request and rt = int_runtime and cfg = server
        and env = delivering and s = "''a@b.com''" and e = e and w = start,
        THEN conjunct2, THEN conjunct2, THEN conjunct2, THEN conjunct2, THEN mp, OF h]
    by (simp add: delivering_def string_defs)
  from 1 2 3 e m 5 show ?thesis by blast
qed

text \<open>
  C10. Without \<^verbatim>\<open>SENDGRID_API_KEY\<close> a valid inflation email request is answered with status
  200 and \<^verbatim>\<open>success: true\<close>, \<^verbatim>\<open>emailSent\<close> and \<^verbatim>\<open>emailStored\<close> both false, and the state is
  unchanged: the transport is not called and no pending row is written.
\<close>

theorem no_key_drops_notification:
  "field body ''email'' = JStr s \<and> s \<noteq> [] \<and> truthy rt (field body ''calculationData'') \<and>
   emailRegex_test (trim s) \<and> \<not> sendgrid_key cfg \<longrightarrow>
   inflation_email_handler rt cfg env body w =
     (reply 200 True ''Inflation email processed successfully''
        (Some \<lparr>emailSent = False, emailStored = False, recipient = trim s,
               timestamp = server_now env, reported_error = None\<rparr>),
      w)"
proof
  assume "field body ''email'' = JStr s \<and> s \<noteq> [] \<and> truthy rt (field body ''calculationData'') \<and>
   emailRegex_test (trim s) \<and> \<not> sendgrid_key cfg"
  then show "inflation_email_handler rt cfg env body w =
     (reply 200 True ''Inflation email processed successfully''
        (Some \<lparr>emailSent = False, emailStored = False, recipient = trim s,
               timestamp = server_now env, reported_error = None\<rparr>),
      w)"
    using inflation_email_valid[of body s rt cfg env w] by simp
qed

theorem no_key_drops_notification_witness:
  "inflation_email_handler int_runtime no_key delivering report_request start =
     (reply 200 True ''Inflation email processed successfully''
        (Some \<lparr>emailSent = False, emailStored = False, recipient = ''a@b.com'',
               timestamp = 1001, reported_error = None\<rparr>),
      start) \<and>
   outbox start = [] \<and> pendingEmails (db start) = []"
proof -
  have h: "field report_request ''email'' = JStr ''a@b.com'' \<and> ''a@b.com'' \<noteq> [] \<and>
      truthy int_runtime (field report_request ''calculationData'') \<and>
      emailRegex_test (trim ''a@b.com'') \<and> \<not> sendgrid_key no_key"
    using valid_report_request by (simp add: no_key_def)
  have "server_now delivering = 1001" by (simp add: delivering_def)
  with no_key_drops_notification[of report_request "''a@b.com''" int_runtime no_key delivering
      start, THEN mp, OF h] valid_report_request(5)
  show ?thesis by (simp add: start_def empty_store_def)
qed

end
